theory Spec2Isabelle
  imports Main
begin

section \<open>Python strings\<close>

text \<open>
  A Python \<open>str\<close> is modelled as a \<open>string\<close> (a list of 8-bit characters), one character
  per code point. The LDT files are read as ISO-8859-1, so every code point of a line is
  below 256 and the model is exact there.
\<close>

definition py_isspace :: "char \<Rightarrow> bool" where
  \<comment> \<open>\<open>str.isspace\<close> on the code points below 256: TAB..CR, FS..US, SPACE, NEL, NBSP.\<close>
  "py_isspace c = ((of_char c :: nat) \<in> {9, 10, 11, 12, 13, 28, 29, 30, 31, 32, 133, 160})"

definition py_rstrip :: "string \<Rightarrow> string" where
  "py_rstrip s = rev (dropWhile py_isspace (rev s))"

definition py_strip :: "string \<Rightarrow> string" where
  \<comment> \<open>\<open>s.strip()\<close>\<close>
  "py_strip s = py_rstrip (dropWhile py_isspace s)"

definition slice :: "nat \<Rightarrow> nat \<Rightarrow> string \<Rightarrow> string" where
  \<comment> \<open>\<open>s[a:b]\<close> for \<open>0 \<le> a \<le> b\<close>; clipped at the end of the string, never raising\<close>
  "slice a b s = take (b - a) (drop a s)"

fun split_on :: "char \<Rightarrow> string \<Rightarrow> string list" where
  \<comment> \<open>\<open>s.split(sep)\<close> for a one-character separator: always at least one part\<close>
  "split_on sep [] = [[]]"
| "split_on sep (c # cs) =
     (if c = sep then [] # split_on sep cs
      else (case split_on sep cs of p # ps \<Rightarrow> (c # p) # ps | [] \<Rightarrow> [[c]]))"

definition is_digit :: "char \<Rightarrow> bool" where
  "is_digit c = (48 \<le> (of_char c :: nat) \<and> (of_char c :: nat) \<le> 57)"

definition digit_val :: "char \<Rightarrow> nat" where
  "digit_val c = (of_char c :: nat) - 48"

definition digit_char :: "nat \<Rightarrow> char" where
  "digit_char n = ''0123456789'' ! (n mod 10)"

fun digits_val :: "nat \<Rightarrow> string \<Rightarrow> nat" where
  \<comment> \<open>\<open>int(s)\<close> on a string of decimal digits, with the value read so far\<close>
  "digits_val acc [] = acc"
| "digits_val acc (c # cs) = digits_val (10 * acc + digit_val c) cs"

fun str_nat :: "nat \<Rightarrow> string" where
  \<comment> \<open>\<open>str(n)\<close>, as an f-string formats a line number\<close>
  "str_nat n = (if n < 10 then [digit_char n] else str_nat (n div 10) @ [digit_char n])"

definition pad2 :: "nat \<Rightarrow> string" where
  \<comment> \<open>\<open>%02d\<close>\<close>
  "pad2 n = [digit_char (n div 10), digit_char n]"

definition pad4 :: "nat \<Rightarrow> string" where
  \<comment> \<open>\<open>%04d\<close>\<close>
  "pad4 n = [digit_char (n div 1000), digit_char (n div 100), digit_char (n div 10), digit_char n]"

section \<open>\<open>datetime.strptime\<close> and \<open>strftime\<close> for the two formats of the LDT processor\<close>

text \<open>
  \<open>strptime\<close> turns the format into a regular expression, one group per directive, and
  takes the first match in the priority order of the alternatives (backtracking into an
  earlier group when a later one fails); it raises \<open>ValueError\<close> when nothing matches,
  when text remains after the match, and when the numbers are not a date or time. A
  matcher returns the ways one group can match at the head of the text, best first, each
  with the text that remains.
\<close>

type_synonym matcher = "string \<Rightarrow> (string \<times> string) list"

definition two :: "(char \<Rightarrow> bool) \<Rightarrow> (char \<Rightarrow> bool) \<Rightarrow> matcher" where
  "two p q s = (case s of a # b # r \<Rightarrow> (if p a \<and> q b then [([a, b], r)] else []) | _ \<Rightarrow> [])"

definition one :: "(char \<Rightarrow> bool) \<Rightarrow> matcher" where
  "one p s = (case s of a # r \<Rightarrow> (if p a then [([a], r)] else []) | _ \<Rightarrow> [])"

definition in_chars :: "string \<Rightarrow> char \<Rightarrow> bool" where
  "in_chars cs c = (c \<in> set cs)"

definition re_d :: matcher where
  \<comment> \<open>\<open>%d\<close>: \<open>3[0-1]|[1-2]\d|0[1-9]|[1-9]| [1-9]\<close>\<close>
  "re_d s = two (in_chars ''3'') (in_chars ''01'') s @ two (in_chars ''12'') is_digit s
          @ two (in_chars ''0'') (in_chars ''123456789'') s @ one (in_chars ''123456789'') s
          @ two (in_chars '' '') (in_chars ''123456789'') s"

definition re_m :: matcher where
  \<comment> \<open>\<open>%m\<close>: \<open>1[0-2]|0[1-9]|[1-9]\<close>\<close>
  "re_m s = two (in_chars ''1'') (in_chars ''012'') s
          @ two (in_chars ''0'') (in_chars ''123456789'') s @ one (in_chars ''123456789'') s"

definition re_Y :: matcher where
  \<comment> \<open>\<open>%Y\<close>: \<open>\d\d\d\d\<close>\<close>
  "re_Y s = (case s of a # b # c # d # r \<Rightarrow>
               (if is_digit a \<and> is_digit b \<and> is_digit c \<and> is_digit d then [([a, b, c, d], r)] else [])
             | _ \<Rightarrow> [])"

definition re_H :: matcher where
  \<comment> \<open>\<open>%H\<close>: \<open>2[0-3]|[0-1]\d|\d\<close>\<close>
  "re_H s = two (in_chars ''2'') (in_chars ''0123'') s @ two (in_chars ''01'') is_digit s
          @ one is_digit s"

definition re_M :: matcher where
  \<comment> \<open>\<open>%M\<close>: \<open>[0-5]\d|\d\<close>\<close>
  "re_M s = two (in_chars ''012345'') is_digit s @ one is_digit s"

definition re_S :: matcher where
  \<comment> \<open>\<open>%S\<close>: \<open>6[0-1]|[0-5]\d|\d\<close>\<close>
  "re_S s = two (in_chars ''6'') (in_chars ''01'') s @ two (in_chars ''012345'') is_digit s
          @ one is_digit s"

definition match3 :: "matcher \<Rightarrow> matcher \<Rightarrow> matcher \<Rightarrow> string \<Rightarrow> ((string \<times> string \<times> string) \<times> string) option" where
  \<comment> \<open>the first match of three groups in sequence, with the text after it\<close>
  "match3 f g h s =
     (case concat (map (\<lambda>(a, r1). concat (map (\<lambda>(b, r2). map (\<lambda>(c, r3). ((a, b, c), r3)) (h r2)) (g r1))) (f s)) of
        [] \<Rightarrow> None
      | x # _ \<Rightarrow> Some x)"

definition group_val :: "string \<Rightarrow> nat" where
  \<comment> \<open>\<open>int(group)\<close>; the only non-digit a group can hold is the leading blank of \<open>%d\<close>\<close>
  "group_val g = digits_val 0 (dropWhile py_isspace g)"

definition is_leap :: "nat \<Rightarrow> bool" where
  "is_leap y = (y mod 4 = 0 \<and> (y mod 100 \<noteq> 0 \<or> y mod 400 = 0))"

definition days_in_month :: "nat \<Rightarrow> nat \<Rightarrow> nat" where
  "days_in_month y m =
     (if m = 2 then (if is_leap y then 29 else 28)
      else if m \<in> {4, 6, 9, 11} then 30 else 31)"

definition strptime_dmY :: "string \<Rightarrow> (nat \<times> nat \<times> nat) option" where
  \<comment> \<open>\<open>datetime.strptime(s, '%d%m%Y')\<close> as (year, month, day); \<open>None\<close> is \<open>ValueError\<close>\<close>
  "strptime_dmY s =
     (case match3 re_d re_m re_Y s of
        None \<Rightarrow> None
      | Some ((d, m, y), rest) \<Rightarrow>
          if rest \<noteq> [] then None
          else (let day = group_val d; month = group_val m; year = group_val y in
                if 1 \<le> year \<and> 1 \<le> month \<and> month \<le> 12 \<and> 1 \<le> day \<and> day \<le> days_in_month year month
                then Some (year, month, day) else None))"

definition strptime_HMS :: "string \<Rightarrow> (nat \<times> nat \<times> nat) option" where
  \<comment> \<open>\<open>datetime.strptime(s, '%H%M%S')\<close> as (hour, minute, second); \<open>None\<close> is \<open>ValueError\<close>\<close>
  "strptime_HMS s =
     (case match3 re_H re_M re_S s of
        None \<Rightarrow> None
      | Some ((h, m, sec), rest) \<Rightarrow>
          if rest \<noteq> [] then None
          else (let hour = group_val h; minute = group_val m; second = group_val sec in
                if hour \<le> 23 \<and> minute \<le> 59 \<and> second \<le> 59
                then Some (hour, minute, second) else None))"

definition strftime_Ymd :: "nat \<times> nat \<times> nat \<Rightarrow> string" where
  \<comment> \<open>\<open>strftime('%Y-%m-%d')\<close>. The year is zero-filled to four digits, as documented; below
      the year 1000 the C library of the platform decides, from 1000 on there is nothing to fill.\<close>
  "strftime_Ymd t = (case t of (y, m, d) \<Rightarrow> pad4 y @ ''-'' @ pad2 m @ ''-'' @ pad2 d)"

definition strftime_HMS :: "nat \<times> nat \<times> nat \<Rightarrow> string" where
  \<comment> \<open>\<open>strftime('%H:%M:%S')\<close>\<close>
  "strftime_HMS t = (case t of (h, m, s) \<Rightarrow> pad2 h @ '':'' @ pad2 m @ '':'' @ pad2 s)"

section \<open>The LDT processor: field decoders\<close>

definition parse_date :: "string \<Rightarrow> string option" where
  \<comment> \<open>\<open>LDTProcessor._parse_date\<close>\<close>
  "parse_date date_str =
     (if date_str = [] \<or> py_strip date_str = ''00000000'' then None
      else (case strptime_dmY (py_strip date_str) of
              Some date_obj \<Rightarrow> Some (strftime_Ymd date_obj)
            | None \<Rightarrow> None))"

definition parse_time :: "string \<Rightarrow> string option" where
  \<comment> \<open>\<open>LDTProcessor._parse_time\<close>\<close>
  "parse_time time_str =
     (if time_str = [] \<or> py_strip time_str = ''000000'' then None
      else (case strptime_HMS (py_strip time_str) of
              Some time_obj \<Rightarrow> Some (strftime_HMS time_obj)
            | None \<Rightarrow> None))"

record patient_data =
  pat_id :: string
  pat_last_name :: string
  pat_first_name :: string
  pat_birth_date :: "string option"
  pat_gender :: string
  pat_insurance_number :: string
  pat_insurance_type :: string
  pat_record_type :: string
  pat_end_time :: "string option"

record order_data =
  ord_id :: string
  ord_order_date :: "string option"
  ord_order_time :: "string option"
  ord_ordering_physician :: string
  ord_laboratory :: string
  ord_record_type :: string
  ord_patient_id :: "string option"
  ord_end_time :: "string option"

record result_data =
  res_id :: string
  res_test_code :: string
  res_test_name :: string
  res_result_value :: string
  res_unit :: string
  res_reference_range :: string
  res_abnormal_flag :: string
  res_result_date :: "string option"
  res_result_time :: "string option"
  res_record_type :: string
  res_order_id :: "string option"
  res_patient_id :: "string option"

record comment_data =
  com_id :: string
  com_comment_text :: string
  com_comment_date :: "string option"
  com_comment_time :: "string option"
  com_record_type :: string
  com_order_id :: "string option"
  com_patient_id :: "string option"

text \<open>
  The keys \<open>patient_id\<close>, \<open>order_id\<close> and \<open>end_time\<close> are added to a record by the
  assembler after the decoder has returned it; a key not yet added is \<open>None\<close>, as is a key
  set to \<open>None\<close>.
\<close>

definition parse_patient_record :: "string \<Rightarrow> patient_data" where
  \<comment> \<open>\<open>LDTProcessor._parse_patient_record\<close>\<close>
  "parse_patient_record line =
     \<lparr> pat_id = py_strip (slice 2 12 line),
       pat_last_name = py_strip (slice 12 42 line),
       pat_first_name = py_strip (slice 42 62 line),
       pat_birth_date = parse_date (slice 62 70 line),
       pat_gender = slice 70 71 line,
       pat_insurance_number = py_strip (slice 71 81 line),
       pat_insurance_type = slice 81 82 line,
       pat_record_type = ''01'',
       pat_end_time = None \<rparr>"

definition parse_order_record :: "string \<Rightarrow> order_data" where
  \<comment> \<open>\<open>LDTProcessor._parse_order_record\<close>\<close>
  "parse_order_record line =
     \<lparr> ord_id = py_strip (slice 2 12 line),
       ord_order_date = parse_date (slice 12 20 line),
       ord_order_time = parse_time (slice 20 26 line),
       ord_ordering_physician = py_strip (slice 26 66 line),
       ord_laboratory = py_strip (slice 66 106 line),
       ord_record_type = ''02'',
       ord_patient_id = None,
       ord_end_time = None \<rparr>"

definition parse_result_record :: "string \<Rightarrow> result_data" where
  \<comment> \<open>\<open>LDTProcessor._parse_result_record\<close>\<close>
  "parse_result_record line =
     \<lparr> res_id = py_strip (slice 2 12 line),
       res_test_code = py_strip (slice 12 22 line),
       res_test_name = py_strip (slice 22 82 line),
       res_result_value = py_strip (slice 82 122 line),
       res_unit = py_strip (slice 122 132 line),
       res_reference_range = py_strip (slice 132 172 line),
       res_abnormal_flag = slice 172 173 line,
       res_result_date = parse_date (slice 173 181 line),
       res_result_time = parse_time (slice 181 187 line),
       res_record_type = ''03'',
       res_order_id = None,
       res_patient_id = None \<rparr>"

definition parse_comment_record :: "string \<Rightarrow> comment_data" where
  \<comment> \<open>\<open>LDTProcessor._parse_comment_record\<close>\<close>
  "parse_comment_record line =
     \<lparr> com_id = py_strip (slice 2 12 line),
       com_comment_text = py_strip (slice 12 172 line),
       com_comment_date = parse_date (slice 172 180 line),
       com_comment_time = parse_time (slice 180 186 line),
       com_record_type = ''04'',
       com_order_id = None,
       com_patient_id = None \<rparr>"

section \<open>The LDT processor: file assembly\<close>

definition RECORD_TYPES :: "string list" where
  \<comment> \<open>the keys of \<open>LDTProcessor.RECORD_TYPES\<close>\<close>
  "RECORD_TYPES = [''01'', ''02'', ''03'', ''04'', ''05'', ''06'', ''07'']"

record LDTProcessor =
  \<comment> \<open>the attributes set by \<open>__init__\<close>; only \<open>errors\<close> is used afterwards\<close>
  self_patients :: "patient_data list"
  self_orders :: "order_data list"
  self_results :: "result_data list"
  self_comments :: "comment_data list"
  self_errors :: "string list"

definition init_processor :: LDTProcessor where
  \<comment> \<open>\<open>LDTProcessor.__init__\<close>\<close>
  "init_processor =
     \<lparr> self_patients = [], self_orders = [], self_results = [], self_comments = [],
       self_errors = [] \<rparr>"

record metadata =
  file_version :: string
  processed_at :: string
  total_lines :: nat

record parsed_data =
  pd_patients :: "patient_data list"
  pd_orders :: "order_data list"
  pd_results :: "result_data list"
  pd_comments :: "comment_data list"
  pd_metadata :: metadata
  pd_errors :: "string list"

text \<open>
  The state of the loop of \<open>parse_ldt_content\<close>. \<open>current_patient\<close> and \<open>current_order\<close>
  are references to dictionaries that are also elements of the output lists, so a cursor is
  the position of its record in the list, and stamping \<open>end_time\<close> through the cursor
  changes the record in the list. \<open>errors\<close> is \<open>self.errors\<close>.
\<close>

record assembly =
  patients :: "patient_data list"
  orders :: "order_data list"
  results :: "result_data list"
  comments :: "comment_data list"
  current_patient :: "nat option"
  current_order :: "nat option"
  errors :: "string list"

type_synonym clock = "nat \<Rightarrow> string"
  \<comment> \<open>\<open>datetime.now().isoformat()\<close> as read while line \<open>n\<close> is handled (0: before the loop)\<close>

definition cursor_patient_id :: "assembly \<Rightarrow> string option" where
  \<comment> \<open>\<open>current_patient['id'] if current_patient else None\<close>\<close>
  "cursor_patient_id st =
     (case current_patient st of None \<Rightarrow> None | Some i \<Rightarrow> Some (pat_id (patients st ! i)))"

definition cursor_order_id :: "assembly \<Rightarrow> string option" where
  \<comment> \<open>\<open>current_order['id'] if current_order else None\<close>\<close>
  "cursor_order_id st =
     (case current_order st of None \<Rightarrow> None | Some i \<Rightarrow> Some (ord_id (orders st ! i)))"

definition unknown_record_type :: "nat \<Rightarrow> string \<Rightarrow> string" where
  \<comment> \<open>\<open>f"Line {line_num}: Unknown record type {record_type}"\<close>\<close>
  "unknown_record_type line_num record_type =
     ''Line '' @ str_nat line_num @ '': Unknown record type '' @ record_type"

definition process_line :: "clock \<Rightarrow> nat \<Rightarrow> string \<Rightarrow> assembly \<Rightarrow> assembly" where
  \<comment> \<open>the body of the loop of \<open>parse_ldt_content\<close>. Slicing, \<open>strip\<close> and the two field
      decoders raise nothing on a string, so the \<open>except\<close> branch is never taken.\<close>
  "process_line now line_num line st =
     (if py_strip line = [] then st
      else let record_type = take 2 line in
        if record_type \<notin> set RECORD_TYPES
        then st\<lparr>errors := errors st @ [unknown_record_type line_num record_type]\<rparr>
        else if record_type = ''01''
        then st\<lparr>current_patient := Some (length (patients st)),
                 patients := patients st @ [parse_patient_record line]\<rparr>
        else if record_type = ''02''
        then st\<lparr>current_order := Some (length (orders st)),
                 orders := orders st @ [(parse_order_record line)\<lparr>ord_patient_id := cursor_patient_id st\<rparr>]\<rparr>
        else if record_type = ''03''
        then st\<lparr>results := results st @
                   [(parse_result_record line)\<lparr>res_order_id := cursor_order_id st,
                                                 res_patient_id := cursor_patient_id st\<rparr>]\<rparr>
        else if record_type = ''04''
        then st\<lparr>comments := comments st @
                   [(parse_comment_record line)\<lparr>com_order_id := cursor_order_id st,
                                                  com_patient_id := cursor_patient_id st\<rparr>]\<rparr>
        else if record_type = ''05''
        then (case current_order st of
                None \<Rightarrow> st
              | Some i \<Rightarrow> st\<lparr>orders := (orders st)[i := (orders st ! i)\<lparr>ord_end_time := Some (now line_num)\<rparr>],
                              current_order := None\<rparr>)
        else if record_type = ''06''
        then (case current_patient st of
                None \<Rightarrow> st
              | Some i \<Rightarrow> st\<lparr>patients := (patients st)[i := (patients st ! i)\<lparr>pat_end_time := Some (now line_num)\<rparr>],
                              current_patient := None\<rparr>)
        else st)"

fun assemble :: "clock \<Rightarrow> nat \<Rightarrow> string list \<Rightarrow> assembly \<Rightarrow> assembly" where
  \<comment> \<open>\<open>for line_num, line in enumerate(lines, n)\<close>\<close>
  "assemble now n [] st = st"
| "assemble now n (line # lines) st = assemble now (Suc n) lines (process_line now n line st)"

definition ldt_lines :: "string \<Rightarrow> string list" where
  \<comment> \<open>\<open>content.strip().split('\n')\<close>\<close>
  "ldt_lines content = split_on CHR 0x0A (py_strip content)"

definition parse_ldt_content :: "clock \<Rightarrow> string \<Rightarrow> LDTProcessor \<Rightarrow> parsed_data \<times> LDTProcessor" where
  \<comment> \<open>\<open>LDTProcessor.parse_ldt_content\<close>: the returned dictionary and the processor after the
      call. The returned \<open>errors\<close> is \<open>self.errors\<close> itself.\<close>
  "parse_ldt_content now content self =
     (let lines = ldt_lines content;
          st = assemble now 1 lines
                 \<lparr> patients = [], orders = [], results = [], comments = [],
                   current_patient = None, current_order = None, errors = self_errors self \<rparr>
      in (\<lparr> pd_patients = patients st, pd_orders = orders st, pd_results = results st,
             pd_comments = comments st,
             pd_metadata = \<lparr> file_version = ''LDT 3.2.19'', processed_at = now 0,
                               total_lines = length lines \<rparr>,
             pd_errors = errors st \<rparr>,
          self\<lparr>self_errors := errors st\<rparr>))"

section \<open>Segment-based messages: the decoder of \<open>LDTMessage\<close>\<close>

record msh_segment =
  msh_sending_facility :: string
  msh_receiving_facility :: string
  msh_message_datetime :: string
  msh_message_type :: string
  msh_message_control_id :: string
  msh_processing_id :: string
  msh_version_id :: string

record pid_segment =
  pid_patient_id :: string
  pid_patient_name :: string
  pid_date_of_birth :: string
  pid_gender :: string

record orc_segment =
  orc_order_control :: string
  orc_placer_order_number :: string
  orc_filler_order_number :: string
  orc_placer_group_number :: string

record obr_segment =
  obr_set_id :: string
  obr_placer_order_number :: string
  obr_filler_order_number :: string
  obr_universal_service_id :: string
  obr_priority :: string
  obr_requested_datetime :: string
  obr_observation_datetime :: string
  obr_specimen_received_datetime :: string

record obx_segment =
  obx_set_id :: string
  obx_value_type :: string
  obx_observation_id :: string
  obx_sub_id :: string
  obx_observation_value :: string
  obx_units :: string
  obx_reference_range :: string
  obx_abnormal_flags :: string
  obx_probability :: string
  obx_nature_of_abnormal_test :: string
  obx_observation_result_status :: string
  obx_effective_date_of_reference_range :: string
  obx_user_defined_access_checks :: string
  obx_observation_datetime :: string
  obx_producer_id :: string
  obx_responsible_observer :: string

definition part :: "string list \<Rightarrow> nat \<Rightarrow> string" where
  \<comment> \<open>\<open>segments[i] if len(segments) > i else ''\<close>\<close>
  "part segments i = (if length segments > i then segments ! i else [])"

definition parse_msh_segment :: "string list \<Rightarrow> msh_segment" where
  \<comment> \<open>\<open>LDTMessage._parse_msh_segment\<close>\<close>
  "parse_msh_segment segments =
     \<lparr> msh_sending_facility = part segments 3,
       msh_receiving_facility = part segments 4,
       msh_message_datetime = part segments 6,
       msh_message_type = part segments 8,
       msh_message_control_id = part segments 9,
       msh_processing_id = part segments 10,
       msh_version_id = part segments 11 \<rparr>"

definition parse_pid_segment :: "string list \<Rightarrow> pid_segment" where
  \<comment> \<open>\<open>LDTMessage._parse_pid_segment\<close>\<close>
  "parse_pid_segment segments =
     \<lparr> pid_patient_id = part segments 3,
       pid_patient_name = part segments 5,
       pid_date_of_birth = part segments 7,
       pid_gender = part segments 8 \<rparr>"

definition parse_orc_segment :: "string list \<Rightarrow> orc_segment" where
  \<comment> \<open>\<open>LDTMessage._parse_orc_segment\<close>\<close>
  "parse_orc_segment segments =
     \<lparr> orc_order_control = part segments 1,
       orc_placer_order_number = part segments 2,
       orc_filler_order_number = part segments 3,
       orc_placer_group_number = part segments 4 \<rparr>"

definition parse_obr_segment :: "string list \<Rightarrow> obr_segment" where
  \<comment> \<open>\<open>LDTMessage._parse_obr_segment\<close>\<close>
  "parse_obr_segment segments =
     \<lparr> obr_set_id = part segments 1,
       obr_placer_order_number = part segments 2,
       obr_filler_order_number = part segments 3,
       obr_universal_service_id = part segments 4,
       obr_priority = part segments 5,
       obr_requested_datetime = part segments 6,
       obr_observation_datetime = part segments 7,
       obr_specimen_received_datetime = part segments 14 \<rparr>"

definition parse_obx_segment :: "string list \<Rightarrow> obx_segment" where
  \<comment> \<open>\<open>LDTMessage._parse_obx_segment\<close>\<close>
  "parse_obx_segment segments =
     \<lparr> obx_set_id = part segments 1,
       obx_value_type = part segments 2,
       obx_observation_id = part segments 3,
       obx_sub_id = part segments 4,
       obx_observation_value = part segments 5,
       obx_units = part segments 6,
       obx_reference_range = part segments 7,
       obx_abnormal_flags = part segments 8,
       obx_probability = part segments 9,
       obx_nature_of_abnormal_test = part segments 10,
       obx_observation_result_status = part segments 11,
       obx_effective_date_of_reference_range = part segments 12,
       obx_user_defined_access_checks = part segments 13,
       obx_observation_datetime = part segments 14,
       obx_producer_id = part segments 15,
       obx_responsible_observer = part segments 16 \<rparr>"

record parsed_message =
  \<comment> \<open>the dictionary \<open>parsed\<close>: a key that is absent is \<open>None\<close>\<close>
  msh :: "msh_segment option"
  pid :: "pid_segment option"
  orc :: "orc_segment option"
  obr :: "obr_segment option"
  obx :: "obx_segment list option"

definition empty_parsed :: parsed_message where
  "empty_parsed = \<lparr> msh = None, pid = None, orc = None, obr = None, obx = None \<rparr>"

definition segment_type_of :: "string list \<Rightarrow> string" where
  \<comment> \<open>\<open>segments[0] if segments else ''\<close>\<close>
  "segment_type_of segments = (case segments of [] \<Rightarrow> [] | t # _ \<Rightarrow> t)"

definition parse_line :: "string \<Rightarrow> parsed_message \<Rightarrow> parsed_message" where
  \<comment> \<open>the body of the loop of \<open>_parse_ldt_message\<close>\<close>
  "parse_line line parsed =
     (if py_strip line = [] then parsed
      else let segments = split_on CHR ''|'' line; segment_type = segment_type_of segments in
        if segment_type = ''MSH'' then parsed\<lparr>msh := Some (parse_msh_segment segments)\<rparr>
        else if segment_type = ''PID'' then parsed\<lparr>pid := Some (parse_pid_segment segments)\<rparr>
        else if segment_type = ''ORC'' then parsed\<lparr>orc := Some (parse_orc_segment segments)\<rparr>
        else if segment_type = ''OBR'' then parsed\<lparr>obr := Some (parse_obr_segment segments)\<rparr>
        else if segment_type = ''OBX''
        then parsed\<lparr>obx := Some ((case obx parsed of None \<Rightarrow> [] | Some l \<Rightarrow> l) @ [parse_obx_segment segments])\<rparr>
        else parsed)"

definition parse_ldt_message :: "string \<Rightarrow> parsed_message" where
  \<comment> \<open>\<open>LDTMessage._parse_ldt_message\<close> on \<open>self.raw_message\<close>\<close>
  "parse_ldt_message raw_message = fold parse_line (split_on CHR 0x0A raw_message) empty_parsed"

fun contains :: "string \<Rightarrow> string \<Rightarrow> bool" where
  \<comment> \<open>\<open>sub in s\<close> on strings\<close>
  "contains sub [] = (sub = [])"
| "contains sub (c # cs) = (take (length sub) (c # cs) = sub \<or> contains sub cs)"

record message_structure =
  total_segments :: nat
  segment_types :: "string list"
  message_size :: nat
  has_patient_data :: bool
  has_order_data :: bool
  has_result_data :: bool

definition extract_message_structure :: "string \<Rightarrow> message_structure" where
  \<comment> \<open>\<open>LDTMessage._extract_message_structure\<close> on \<open>self.raw_message\<close>.
      \<open>list(set(...))\<close> keeps each tag once, in an order the language leaves open:
      only the set of \<open>segment_types\<close> is meaningful.\<close>
  "extract_message_structure raw_message =
     \<lparr> total_segments = length (split_on CHR 0x0A raw_message),
       segment_types = remdups (map (\<lambda>line. hd (split_on CHR ''|'' line))
                                  (filter (\<lambda>line. py_strip line \<noteq> []) (split_on CHR 0x0A raw_message))),
       message_size = length raw_message,
       has_patient_data = contains ''PID'' raw_message,
       has_order_data = contains ''ORC'' raw_message,
       has_result_data = contains ''OBX'' raw_message \<rparr>"

section \<open>Notions used to state the properties of the LDT processor\<close>


definition stripped :: "string \<Rightarrow> bool" where
  \<comment> \<open>no leading and no trailing whitespace\<close>
  "stripped s = (s = [] \<or> (\<not> py_isspace (hd s) \<and> \<not> py_isspace (last s)))"

definition stripped_opt :: "string option \<Rightarrow> bool" where
  "stripped_opt v = (case v of None \<Rightarrow> True | Some s \<Rightarrow> stripped s)"

definition blank_gender_line :: string where
  \<comment> \<open>a patient line of 82 characters whose gender column (offset 70) is a blank\<close>
  "blank_gender_line = ''01PATIENT001DOE                           JOHN                01011980 12345678901''"

definition valid_line :: "string \<Rightarrow> bool" where
  \<comment> \<open>a non-blank line whose tag is one of the seven registered record types\<close>
  "valid_line l = (py_strip l \<noteq> [] \<and> take 2 l \<in> set RECORD_TYPES)"

definition malformed_line :: "string \<Rightarrow> bool" where
  \<comment> \<open>a non-blank line whose tag is not registered\<close>
  "malformed_line l = (py_strip l \<noteq> [] \<and> take 2 l \<notin> set RECORD_TYPES)"

definition record_line :: "string \<Rightarrow> bool" where
  \<comment> \<open>a valid line of a type that carries a record (01 to 04); 05 to 07 are end markers\<close>
  "record_line l = (py_strip l \<noteq> [] \<and> take 2 l \<in> set [''01'', ''02'', ''03'', ''04''])"

definition record_count :: "parsed_data \<Rightarrow> nat" where
  "record_count pd = length (pd_patients pd) + length (pd_orders pd) + length (pd_results pd) + length (pd_comments pd)"

definition skip_clock :: "nat \<Rightarrow> clock \<Rightarrow> clock" where
  \<comment> \<open>the clock seen by a file from which line \<open>k\<close> was removed: later lines move up by one\<close>
  "skip_clock k now n = (if n < k then now n else now (Suc n))"

definition same_records :: "parsed_data \<Rightarrow> parsed_data \<Rightarrow> bool" where
  "same_records a b = (pd_patients a = pd_patients b \<and> pd_orders a = pd_orders b
     \<and> pd_results a = pd_results b \<and> pd_comments a = pd_comments b)"

definition assembly_count :: "assembly \<Rightarrow> nat" where
  "assembly_count st = length (patients st) + length (orders st) + length (results st) + length (comments st)"

definition fixed_clock :: clock where
  "fixed_clock n = ''2023-12-01T12:00:00''"

definition sample_content :: string where
  "sample_content = ''01P1'' @ [CHR 0x0A] @ ''XX'' @ [CHR 0x0A] @ ''02O1'' @ [CHR 0x0A] @ ''05''"

definition sample_content_without :: string where
  "sample_content_without = ''01P1'' @ [CHR 0x0A] @ ''02O1'' @ [CHR 0x0A] @ ''05''"

section \<open>Notions used to state the properties of the segment decoder\<close>

definition empty_obx :: obx_segment where
  \<comment> \<open>the observation-result segment all of whose fields are empty\<close>
  "empty_obx = parse_obx_segment []"

definition nonblank :: "string \<Rightarrow> bool" where
  "nonblank line = (py_strip line \<noteq> [])"

definition segment_tags :: "string \<Rightarrow> string list" where
  \<comment> \<open>the tag of every segment, that is of every non-blank line, in order\<close>
  "segment_tags raw = map (\<lambda>line. hd (split_on CHR ''|'' line)) (filter nonblank (split_on CHR 0x0A raw))"

definition rapid_message :: string where
  "rapid_message = ''OBX|1|ST|RAPID TEST|positive'' @ [CHR 0x0A]"

section \<open>Persisted entities\<close>

text \<open>
  The tables of the three models the pipeline writes, each a list of rows. A primary key
  (\<open>id\<close>, a random UUID in the source) is a number drawn from a counter of the database,
  so a new row gets a key no row has had. Of each model the fields that the modelled
  functions read or write are kept. A decimal field (six decimal places) is an integer
  number of millionths.
\<close>

datatype message_status = RECEIVED | PROCESSING | PROCESSED | ERROR | REJECTED | PENDING_REVIEW

datatype message_kind = RESULT | ORDER | QUERY | RESPONSE | ACK | NACK

record LDTMessage =
  pk :: nat
  message_id :: string
  message_type :: message_kind
  status :: message_status
  raw_message :: string
  parsed_message :: parsed_message
  message_structure :: "message_structure option"
  processed_at :: "string option"
  processing_duration :: "nat option"
  error_message :: string
  retry_count :: nat
  max_retries :: nat

record TestResult =
  tr_pk :: nat
  result_id :: string
  test_order :: "nat option"
  result_value :: string
  result_unit :: string
  critical_level :: string
  numeric_value :: "int option"
  reference_range_low :: "int option"
  reference_range_high :: "int option"
  ldt_message_id :: string
  ldt_obx_sequence :: "int option"
  ldt_raw_data :: "obx_segment option"
  ldt_parsed_data :: "obx_segment option"
  ldt_processing_status :: string
  validation_status :: string

datatype workflow_kind =
  AUTO_VALIDATION | CRITICAL_VALUE_ALERT | QC_REVIEW | CLINICAL_REVIEW | FINAL_APPROVAL | REPORT_GENERATION

datatype workflow_status = PENDING | IN_PROGRESS | COMPLETED | FAILED | CANCELLED

record ResultWorkflow =
  wf_pk :: nat
  workflow_id :: string
  workflow_type :: workflow_kind
  wf_status :: workflow_status
  wf_results :: "nat list"
  started_at :: "string option"
  completed_at :: "string option"
  wf_error_message :: string

record database =
  ldt_messages :: "LDTMessage list"
  test_results :: "TestResult list"
  result_workflows :: "ResultWorkflow list"
  next_uuid :: nat

datatype exn = ValueError | MultipleObjectsReturned | IntegrityError

definition exn_text :: "exn \<Rightarrow> string" where
  \<comment> \<open>\<open>str(e)\<close>; the wording is the library's, only the kind is kept\<close>
  "exn_text e = (case e of ValueError \<Rightarrow> ''ValueError''
                 | MultipleObjectsReturned \<Rightarrow> ''MultipleObjectsReturned''
                 | IntegrityError \<Rightarrow> ''IntegrityError'')"

definition save_message :: "LDTMessage \<Rightarrow> database \<Rightarrow> database" where
  \<comment> \<open>\<open>message.save()\<close>: update the row of that key, insert when there is none\<close>
  "save_message m db =
     (if list_ex (\<lambda>x. pk x = pk m) (ldt_messages db)
      then db\<lparr>ldt_messages := map (\<lambda>x. if pk x = pk m then m else x) (ldt_messages db)\<rparr>
      else db\<lparr>ldt_messages := ldt_messages db @ [m]\<rparr>)"

definition save_result :: "TestResult \<Rightarrow> database \<Rightarrow> database" where
  \<comment> \<open>\<open>test_result.save()\<close> on a row read from the table\<close>
  "save_result r db =
     db\<lparr>test_results := map (\<lambda>x. if tr_pk x = tr_pk r then r else x) (test_results db)\<rparr>"

definition save_workflow :: "ResultWorkflow \<Rightarrow> database \<Rightarrow> database" where
  \<comment> \<open>\<open>workflow.save()\<close> on a row of the table\<close>
  "save_workflow w db =
     db\<lparr>result_workflows := map (\<lambda>x. if wf_pk x = wf_pk w then w else x) (result_workflows db)\<rparr>"

definition get_message :: "nat \<Rightarrow> database \<Rightarrow> LDTMessage option" where
  \<comment> \<open>\<open>LDTMessage.objects.get(id=message_id)\<close>; \<open>None\<close> is \<open>DoesNotExist\<close>\<close>
  "get_message k db = find (\<lambda>m. pk m = k) (ldt_messages db)"

section \<open>Processing a message\<close>

fun int_digits_ok :: "bool \<Rightarrow> string \<Rightarrow> bool" where
  \<comment> \<open>digits with single underscores between them; the flag says a digit came just before\<close>
  "int_digits_ok after_digit [] = after_digit"
| "int_digits_ok after_digit (c # cs) =
     (if is_digit c then int_digits_ok True cs
      else c = CHR ''_'' \<and> after_digit \<and> int_digits_ok False cs)"

definition int_isspace :: "char \<Rightarrow> bool" where
  \<comment> \<open>the blanks \<open>int\<close> skips around a number: TAB..CR and SPACE, and NEL and NBSP, which
      it turns into spaces first; not FS..US, which \<open>strip\<close> removes\<close>
  "int_isspace c = ((of_char c :: nat) \<in> {9, 10, 11, 12, 13, 32, 133, 160})"

definition py_int :: "string \<Rightarrow> int option" where
  \<comment> \<open>\<open>int(s)\<close> on a string: blanks around, a sign, decimal digits; \<open>None\<close> is \<open>ValueError\<close>\<close>
  "py_int s =
     (let t = rev (dropWhile int_isspace (rev (dropWhile int_isspace s)));
          negative = (t \<noteq> [] \<and> hd t = CHR ''-'');
          ds = (if t \<noteq> [] \<and> (hd t = CHR ''-'' \<or> hd t = CHR ''+'') then tl t else t)
      in if int_digits_ok False ds
         then Some ((if negative then - 1 else 1) * int (digits_val 0 (filter is_digit ds)))
         else None)"

type_synonym insert_check = "TestResult \<Rightarrow> TestResult list \<Rightarrow> bool"
  \<comment> \<open>whether the database accepts the new row next to the rows it holds (its integrity
      constraints: columns that must not be null, unique columns, checks)\<close>

definition new_result :: "nat \<Rightarrow> string \<Rightarrow> int \<Rightarrow> obx_segment \<Rightarrow> TestResult" where
  \<comment> \<open>the row \<open>get_or_create\<close> builds from the lookup and \<open>defaults\<close>; the other fields
      take the defaults of the model, and \<open>_find_test_order\<close> returns \<open>None\<close>\<close>
  "new_result k mid seq seg =
     \<lparr> tr_pk = k,
       result_id = mid @ ''_'' @ obx_set_id seg,
       test_order = None,
       result_value = obx_observation_value seg,
       result_unit = obx_units seg,
       critical_level = [],
       numeric_value = None,
       reference_range_low = None,
       reference_range_high = None,
       ldt_message_id = mid,
       ldt_obx_sequence = Some seq,
       ldt_raw_data = Some seg,
       ldt_parsed_data = Some seg,
       ldt_processing_status = ''PROCESSED'',
       validation_status = ''PENDING'' \<rparr>"

definition get_or_create :: "insert_check \<Rightarrow> string \<Rightarrow> obx_segment \<Rightarrow> database \<Rightarrow> exn + (TestResult \<times> bool \<times> database)" where
  \<comment> \<open>\<open>TestResult.objects.get_or_create(ldt_message_id=..., ldt_obx_sequence=obx.get('set_id'),
      defaults=...)\<close>. The set-id is a string and the column an integer, so the lookup
      converts it and raises \<open>ValueError\<close> when it is no number; more than one matching
      row raises \<open>MultipleObjectsReturned\<close>; a refused insert raises \<open>IntegrityError\<close>.\<close>
  "get_or_create accepts mid seg db =
     (case py_int (obx_set_id seg) of
        None \<Rightarrow> Inl ValueError
      | Some seq \<Rightarrow>
          (case filter (\<lambda>r. ldt_message_id r = mid \<and> ldt_obx_sequence r = Some seq) (test_results db) of
             [] \<Rightarrow>
               (let row = new_result (next_uuid db) mid seq seg in
                if accepts row (test_results db)
                then Inr (row, True, db\<lparr>test_results := test_results db @ [row],
                                        next_uuid := Suc (next_uuid db)\<rparr>)
                else Inl IntegrityError)
           | [r] \<Rightarrow> Inr (r, False, db)
           | _ \<Rightarrow> Inl MultipleObjectsReturned))"

definition update_existing :: "obx_segment \<Rightarrow> TestResult \<Rightarrow> TestResult" where
  \<comment> \<open>the assignments under \<open>if not created\<close>\<close>
  "update_existing seg test_result =
     test_result\<lparr> result_value := obx_observation_value seg,
                  ldt_raw_data := Some seg,
                  ldt_parsed_data := Some seg,
                  ldt_processing_status := ''PROCESSED'' \<rparr>"

fun upsert_results :: "insert_check \<Rightarrow> string \<Rightarrow> obx_segment list \<Rightarrow> database \<Rightarrow> exn option \<times> database" where
  \<comment> \<open>the loop of \<open>_process_result_message\<close>: an exception ends it, the rows written
      before stay written\<close>
  "upsert_results accepts mid [] db = (None, db)"
| "upsert_results accepts mid (seg # rest) db =
     (case get_or_create accepts mid seg db of
        Inl e \<Rightarrow> (Some e, db)
      | Inr (test_result, created, db') \<Rightarrow>
          upsert_results accepts mid rest
            (if created then db' else save_result (update_existing seg test_result) db'))"

definition process_result_message :: "insert_check \<Rightarrow> LDTMessage \<Rightarrow> database \<Rightarrow> exn option \<times> database" where
  \<comment> \<open>\<open>LDTMessage._process_result_message\<close>\<close>
  "process_result_message accepts self db =
     (case obx (parsed_message self) of
        None \<Rightarrow> (None, db)
      | Some segs \<Rightarrow> upsert_results accepts (message_id self) segs db)"

definition process_message :: "insert_check \<Rightarrow> string \<Rightarrow> nat \<Rightarrow> LDTMessage \<Rightarrow> database \<Rightarrow> bool \<times> LDTMessage \<times> database" where
  \<comment> \<open>\<open>LDTMessage.process_message\<close>, at the instant \<open>now\<close> and taking \<open>elapsed\<close>: the
      value returned, the instance and the database after the call. An order message is
      processed by \<open>pass\<close>; the other types by nothing.\<close>
  "process_message accepts now elapsed self db =
     (let self1 = self\<lparr>status := PROCESSING\<rparr>;
          db1 = save_message self1 db;
          self2 = self1\<lparr>parsed_message := parse_ldt_message (raw_message self1),
                       message_structure := Some (extract_message_structure (raw_message self1))\<rparr>;
          (raised, db2) = (if message_type self2 = RESULT then process_result_message accepts self2 db1
                           else (None, db1))
      in case raised of
           None \<Rightarrow>
             (let self3 = self2\<lparr>status := PROCESSED, processed_at := Some now,
                                processing_duration := Some elapsed\<rparr>
              in (True, self3, save_message self3 db2))
         | Some e \<Rightarrow>
             (let self3 = self2\<lparr>status := ERROR, error_message := exn_text e\<rparr>
              in (False, self3, save_message self3 db2)))"

definition reprocess :: "insert_check \<Rightarrow> string \<Rightarrow> nat \<Rightarrow> nat \<Rightarrow> database \<Rightarrow> nat \<times> database" where
  \<comment> \<open>\<open>LDTMessageViewSet.reprocess\<close>: the HTTP status and the database after the request\<close>
  "reprocess accepts now elapsed k db =
     (case get_message k db of
        None \<Rightarrow> (404, db)
      | Some message \<Rightarrow>
          (case process_message accepts now elapsed message db of
             (success, _, db') \<Rightarrow> (if success then 200 else 400, db')))"

section \<open>The asynchronous task\<close>

text \<open>
  One execution of the task either runs its body to the end, at some instant and taking
  some time, or an exception escapes the \<open>transaction.atomic()\<close> block (the database
  failing under a query or a \<open>save\<close>; \<open>process_message\<close> itself catches what its
  processing raises), and then the block has rolled back what the execution wrote. Which
  of the two happens at each execution is given from outside.

  An exception that escapes is caught by \<open>except Exception\<close>, which calls
  \<open>self.retry(exc=exc)\<close>, the task queue's. While fewer than \<open>max_retries\<close> retries have
  been made, \<open>retry\<close> sends the task to the queue again and raises \<open>Retry\<close>; once they are
  used up it raises \<open>exc\<close> itself again. Either exception meets the clause
  \<open>except self.MaxRetriesExceeded\<close>, and a task has no attribute of that name (the
  queue calls it \<open>MaxRetriesExceededError\<close>): evaluating the clause raises
  \<open>AttributeError\<close>. So an execution that raised ends with an exception whether or not it
  is retried, and the statements under the clause, which would set the message to
  \<open>Error\<close>, are never run, nor is the \<open>return False\<close> after them.
\<close>

datatype execution = Runs string nat | Raises string

datatype outcome = Returned bool | Crashed

definition task_max_retries :: nat where
  \<comment> \<open>\<open>@shared_task(bind=True, max_retries=3, ...)\<close>\<close>
  "task_max_retries = 3"

definition task_body :: "insert_check \<Rightarrow> string \<Rightarrow> nat \<Rightarrow> nat \<Rightarrow> database \<Rightarrow> bool \<times> database" where
  \<comment> \<open>the \<open>try\<close> block of \<open>process_ldt_message_task\<close> when nothing escapes it\<close>
  "task_body accepts now elapsed k db =
     (case get_message k db of
        None \<Rightarrow> (False, db)
      | Some message \<Rightarrow>
          if status message \<noteq> RECEIVED then (False, db)
          else (case process_message accepts now elapsed message db of
                  (success, _, db') \<Rightarrow> (success, db')))"

fun task_from :: "insert_check \<Rightarrow> (nat \<Rightarrow> execution) \<Rightarrow> nat \<Rightarrow> nat \<Rightarrow> nat \<Rightarrow> database \<Rightarrow> outcome \<times> database" where
  \<comment> \<open>the task with \<open>left\<close> retries left after \<open>retries\<close> retries: how its last execution
      ends, and the database then\<close>
  "task_from accepts env 0 retries k db =
     (case env retries of
        Runs now elapsed \<Rightarrow>
          (case task_body accepts now elapsed k db of (returned, db1) \<Rightarrow> (Returned returned, db1))
      | Raises exc \<Rightarrow> (Crashed, db))"
| "task_from accepts env (Suc left) retries k db =
     (case env retries of
        Runs now elapsed \<Rightarrow>
          (case task_body accepts now elapsed k db of (returned, db1) \<Rightarrow> (Returned returned, db1))
      | Raises exc \<Rightarrow> task_from accepts env left (Suc retries) k db)"

definition process_ldt_message_task :: "insert_check \<Rightarrow> (nat \<Rightarrow> execution) \<Rightarrow> nat \<Rightarrow> database \<Rightarrow> outcome \<times> database" where
  \<comment> \<open>\<open>process_ldt_message_task\<close> from its first execution to its last\<close>
  "process_ldt_message_task accepts env k db = task_from accepts env task_max_retries 0 k db"

section \<open>Triggering workflows\<close>

definition is_critical :: "TestResult \<Rightarrow> bool" where
  \<comment> \<open>\<open>TestResult.is_critical\<close>\<close>
  "is_critical r = (critical_level r \<in> set [''CRITICAL_LOW'', ''CRITICAL_HIGH'', ''PANIC_LOW'', ''PANIC_HIGH''])"

definition truthy :: "int option \<Rightarrow> bool" where
  \<comment> \<open>a decimal in a condition: neither \<open>None\<close> nor zero\<close>
  "truthy v = (case v of None \<Rightarrow> False | Some x \<Rightarrow> x \<noteq> 0)"

definition is_abnormal :: "TestResult \<Rightarrow> bool" where
  \<comment> \<open>\<open>TestResult.is_abnormal\<close>\<close>
  "is_abnormal r =
     (case (numeric_value r, reference_range_low r, reference_range_high r) of
        (Some v, Some lo, Some hi) \<Rightarrow>
          if v \<noteq> 0 \<and> lo \<noteq> 0 \<and> hi \<noteq> 0 then v < lo \<or> v > hi
          else critical_level r \<noteq> ''NORMAL''
      | _ \<Rightarrow> critical_level r \<noteq> ''NORMAL'')"

definition create_workflow :: "string \<Rightarrow> workflow_kind \<Rightarrow> database \<Rightarrow> exn + (ResultWorkflow \<times> database)" where
  \<comment> \<open>\<open>ResultWorkflow.objects.create(workflow_id=..., workflow_type=..., status=PENDING)\<close>;
      \<open>workflow_id\<close> is unique\<close>
  "create_workflow wid kind db =
     (if list_ex (\<lambda>w. workflow_id w = wid) (result_workflows db) then Inl IntegrityError
      else (let w = \<lparr> wf_pk = next_uuid db, workflow_id = wid, workflow_type = kind,
                       wf_status = PENDING, wf_results = [], started_at = None,
                       completed_at = None, wf_error_message = [] \<rparr>
            in Inr (w, db\<lparr>result_workflows := result_workflows db @ [w],
                           next_uuid := Suc (next_uuid db)\<rparr>)))"

definition execute_auto_validation :: "ResultWorkflow \<Rightarrow> database \<Rightarrow> database" where
  \<comment> \<open>\<open>ResultWorkflow._execute_auto_validation\<close>\<close>
  "execute_auto_validation self db =
     db\<lparr>test_results :=
          map (\<lambda>r. if tr_pk r \<in> set (wf_results self)
                    then r\<lparr>validation_status := (if is_abnormal r then ''REQUIRES_REVIEW'' else ''AUTO_VALIDATED'')\<rparr>
                    else r)
              (test_results db)\<rparr>"

definition execute_workflow :: "string \<Rightarrow> string \<Rightarrow> ResultWorkflow \<Rightarrow> database \<Rightarrow> database" where
  \<comment> \<open>\<open>ResultWorkflow.execute_workflow\<close>, started and completed at the two instants given.
      \<open>_send_critical_alert\<close> is \<open>pass\<close>, so a critical-value alert changes no row.\<close>
  "execute_workflow started completed self db =
     (let self1 = self\<lparr>wf_status := IN_PROGRESS, started_at := Some started\<rparr>;
          db1 = save_workflow self1 db;
          db2 = (if workflow_type self1 = AUTO_VALIDATION then execute_auto_validation self1 db1 else db1);
          self2 = self1\<lparr>wf_status := COMPLETED, completed_at := Some completed\<rparr>
      in save_workflow self2 db2)"

definition add_result :: "TestResult \<Rightarrow> ResultWorkflow \<Rightarrow> database \<Rightarrow> ResultWorkflow \<times> database" where
  \<comment> \<open>\<open>workflow.results.add(result)\<close>\<close>
  "add_result r w db =
     (let w' = w\<lparr>wf_results := wf_results w @ [tr_pk r]\<rparr> in (w', save_workflow w' db))"

definition trigger_workflow :: "string \<Rightarrow> string \<Rightarrow> TestResult \<Rightarrow> database \<Rightarrow> database" where
  \<comment> \<open>\<open>TestResultViewSet._trigger_workflow\<close>, called by \<open>perform_create\<close> and by
      \<open>validate\<close>; an exception is logged and leaves the database as it was\<close>
  "trigger_workflow started completed result db =
     (if is_critical result
      then (case create_workflow (''CRITICAL_'' @ str_nat (tr_pk result)) CRITICAL_VALUE_ALERT db of
              Inl e \<Rightarrow> db
            | Inr (workflow, db1) \<Rightarrow>
                (case add_result result workflow db1 of
                   (workflow', db2) \<Rightarrow> execute_workflow started completed workflow' db2))
      else if validation_status result = ''PENDING''
      then (case create_workflow (''VALIDATION_'' @ str_nat (tr_pk result)) AUTO_VALIDATION db of
              Inl e \<Rightarrow> db
            | Inr (workflow, db1) \<Rightarrow>
                (case add_result result workflow db1 of
                   (workflow', db2) \<Rightarrow> execute_workflow started completed workflow' db2))
      else db)"

section \<open>Notions used to state the properties of the pipeline\<close>

definition accept_all :: insert_check where
  \<comment> \<open>a database without integrity constraints\<close>
  "accept_all row rows = True"

definition reject_all :: insert_check where
  \<comment> \<open>a database that refuses every insert of a result\<close>
  "reject_all row rows = False"

definition always_raises :: "nat \<Rightarrow> execution" where
  \<comment> \<open>every execution of the task loses its database connection\<close>
  "always_raises i = Raises ''connection lost''"

definition new_message :: "nat \<Rightarrow> string \<Rightarrow> message_kind \<Rightarrow> string \<Rightarrow> LDTMessage" where
  \<comment> \<open>a message as the ingestion endpoint stores it\<close>
  "new_message k mid kind raw =
     \<lparr> pk = k, message_id = mid, message_type = kind, status = RECEIVED, raw_message = raw,
       parsed_message = empty_parsed, message_structure = None, processed_at = None,
       processing_duration = None, error_message = [], retry_count = 0, max_retries = 3 \<rparr>"

definition empty_database :: database where
  "empty_database = \<lparr> ldt_messages = [], test_results = [], result_workflows = [], next_uuid = 0 \<rparr>"

definition glucose_line :: string where
  "glucose_line = ''OBX|1|NM|GLU^GLU|1|120|mg/dL|70-110|H|F''"



definition received_database :: database where
  "received_database =
     empty_database\<lparr>ldt_messages := [new_message 1 ''MSG001'' RESULT glucose_line], next_uuid := 2\<rparr>"

definition first_runs :: "nat \<Rightarrow> execution" where
  \<comment> \<open>every execution of the task runs to its end\<close>
  "first_runs i = Runs ''2023-12-01T12:00:00'' 1"


definition fresh_keys :: "database \<Rightarrow> bool" where
  \<comment> \<open>the keys of the workflows are below the counter, as they are when all come from it\<close>
  "fresh_keys db = list_all (\<lambda>w. wf_pk w < next_uuid db) (result_workflows db)"

definition completed_workflow :: "nat \<Rightarrow> string \<Rightarrow> workflow_kind \<Rightarrow> nat \<Rightarrow> string \<Rightarrow> string \<Rightarrow> ResultWorkflow" where
  \<comment> \<open>a workflow over one result, run to completion\<close>
  "completed_workflow k wid kind r started completed =
     \<lparr> wf_pk = k, workflow_id = wid, workflow_type = kind, wf_status = COMPLETED,
       wf_results = [r], started_at = Some started, completed_at = Some completed,
       wf_error_message = [] \<rparr>"

definition no_workflow_named :: "string \<Rightarrow> database \<Rightarrow> bool" where
  \<comment> \<open>the unique \<open>workflow_id\<close> is still free\<close>
  "no_workflow_named wid db = (\<not> list_ex (\<lambda>w. workflow_id w = wid) (result_workflows db))"

definition triggered :: "TestResult \<Rightarrow> database \<Rightarrow> string \<Rightarrow> string \<Rightarrow> ResultWorkflow list" where
  \<comment> \<open>the workflows a trigger adds for a result\<close>
  "triggered r db started completed =
     (if is_critical r
      then (if no_workflow_named (''CRITICAL_'' @ str_nat (tr_pk r)) db
            then [completed_workflow (next_uuid db) (''CRITICAL_'' @ str_nat (tr_pk r)) CRITICAL_VALUE_ALERT
                    (tr_pk r) started completed]
            else [])
      else if validation_status r = ''PENDING''
      then (if no_workflow_named (''VALIDATION_'' @ str_nat (tr_pk r)) db
            then [completed_workflow (next_uuid db) (''VALIDATION_'' @ str_nat (tr_pk r)) AUTO_VALIDATION
                    (tr_pk r) started completed]
            else [])
      else [])"

definition critical_pending_result :: TestResult where
  \<comment> \<open>a result that is critical and awaits validation\<close>
  "critical_pending_result =
     (new_result 7 ''MSG001'' 1 (parse_obx_segment (split_on CHR ''|'' glucose_line)))
       \<lparr>critical_level := ''CRITICAL_HIGH''\<rparr>"

definition result_database :: database where
  "result_database = empty_database\<lparr>test_results := [critical_pending_result], next_uuid := 8\<rparr>"

definition two_glucose_lines :: string where
  \<comment> \<open>one message with two observation results of the same set-id\<close>
  "two_glucose_lines = ''OBX|1|NM|GLU^GLU|1|120|mg/dL'' @ [CHR 0x0A] @ ''OBX|1|NM|GLU^GLU|1|6.7|mmol/L''"

definition duplicate_database :: database where
  "duplicate_database =
     empty_database\<lparr>ldt_messages := [new_message 1 ''MSG001'' RESULT two_glucose_lines], next_uuid := 2\<rparr>"

definition earlier_result :: TestResult where
  \<comment> \<open>the result an earlier version of the message left behind, in other units\<close>
  "earlier_result =
     new_result 5 ''MSG001'' 1 (parse_obx_segment (split_on CHR ''|'' ''OBX|1|NM|GLU^GLU|1|6.7|mmol/L''))"

definition earlier_database :: database where
  "earlier_database =
     empty_database\<lparr>ldt_messages := [new_message 1 ''MSG001'' RESULT glucose_line],
                     test_results := [earlier_result], next_uuid := 6\<rparr>"

definition run_twice :: "insert_check \<Rightarrow> database \<Rightarrow> database" where
  \<comment> \<open>the task on the received message, then the reprocess endpoint on the same content\<close>
  "run_twice accepts db =
     snd (reprocess accepts ''2023-12-01T12:05:00'' 1 1
       (snd (process_ldt_message_task accepts first_runs 1 db)))"

definition row_summary :: "TestResult \<Rightarrow> nat \<times> string \<times> string \<times> string option" where
  \<comment> \<open>key, value and unit of a row, and the units of the segment stored as its raw payload\<close>
  "row_summary r = (tr_pk r, result_value r, result_unit r, map_option obx_units (ldt_raw_data r))"

definition hit :: "string \<Rightarrow> obx_segment \<Rightarrow> TestResult \<Rightarrow> bool" where
  \<comment> \<open>the row is the one the lookup of the segment asks for\<close>
  "hit mid seg r =
     (case py_int (obx_set_id seg) of
        None \<Rightarrow> False
      | Some seq \<Rightarrow> ldt_message_id r = mid \<and> ldt_obx_sequence r = Some seq)"

definition touch :: "string \<Rightarrow> obx_segment \<Rightarrow> TestResult \<Rightarrow> TestResult" where
  \<comment> \<open>what the update path does to a row of the table\<close>
  "touch mid seg r = (if hit mid seg r then update_existing seg r else r)"

definition one_step :: "insert_check \<Rightarrow> string \<Rightarrow> obx_segment \<Rightarrow> database \<Rightarrow> exn + database" where
  \<comment> \<open>one round of the loop of \<open>_process_result_message\<close>\<close>
  "one_step accepts mid seg db =
     (case get_or_create accepts mid seg db of
        Inl e \<Rightarrow> Inl e
      | Inr (test_result, created, db') \<Rightarrow>
          Inr (if created then db' else save_result (update_existing seg test_result) db'))"

definition settled :: "string \<Rightarrow> obx_segment list \<Rightarrow> database \<Rightarrow> bool" where
  \<comment> \<open>the table after the segments \<open>done\<close>: keys are distinct and below the counter, every
      segment has exactly one row, and updating the rows again by these segments changes none\<close>
  "settled mid done db =
     (distinct (map tr_pk (test_results db))
      \<and> list_all (\<lambda>r. tr_pk r < next_uuid db) (test_results db)
      \<and> list_all (\<lambda>r. fold (touch mid) done r = r) (test_results db)
      \<and> list_all (\<lambda>s. length (filter (hit mid s) (test_results db)) = 1) done)"

section \<open>Properties of the LDT field decoders\<close>





lemma not_space_digit: "is_digit c \<Longrightarrow> \<not> py_isspace c"
  by (auto simp: is_digit_def py_isspace_def)

lemma match3_first:
  "f s = (a, r1) # xs \<Longrightarrow> g r1 = (b, r2) # ys \<Longrightarrow> h r2 = (c, r3) # zs \<Longrightarrow>
   match3 f g h s = Some ((a, b, c), r3)"
  by (simp add: match3_def)















lemma stripped_py_strip: "stripped (py_strip s)"
proof -
  define t where "t = dropWhile py_isspace s"
  define u where "u = rev (dropWhile py_isspace (rev t))"
  have ps: "py_strip s = u" by (simp add: py_strip_def py_rstrip_def t_def u_def)
  have t: "t = u @ rev (takeWhile py_isspace (rev t))"
  proof -
    have "rev (rev t) = rev (takeWhile py_isspace (rev t) @ dropWhile py_isspace (rev t))"
      by (simp only: takeWhile_dropWhile_id)
    then show ?thesis by (simp only: u_def rev_append rev_rev_ident)
  qed
  show ?thesis
  proof (cases "u = []")
    case True
    then show ?thesis by (simp add: ps stripped_def)
  next
    case False
    then have "hd u = hd t" using t by (metis hd_append2)
    moreover have "t \<noteq> []" using False t by auto
    then have "\<not> py_isspace (hd t)" unfolding t_def by (metis hd_dropWhile)
    moreover have "dropWhile py_isspace (rev t) \<noteq> []" using False by (simp add: u_def)
    then have "\<not> py_isspace (hd (dropWhile py_isspace (rev t)))" by (metis hd_dropWhile)
    then have "\<not> py_isspace (last u)" using False by (simp add: u_def last_rev)
    ultimately show ?thesis by (simp add: ps stripped_def)
  qed
qed

lemma is_digit_digit_char: "is_digit (digit_char n)"
proof -
  have "n mod 10 < 10" by simp
  then have "n mod 10 = 0 \<or> n mod 10 = 1 \<or> n mod 10 = 2 \<or> n mod 10 = 3 \<or> n mod 10 = 4 \<or> n mod 10 = 5
      \<or> n mod 10 = 6 \<or> n mod 10 = 7 \<or> n mod 10 = 8 \<or> n mod 10 = 9" by arith
  then show ?thesis unfolding digit_char_def by (auto simp: is_digit_def)
qed

lemma stripped_strftime_Ymd: "stripped (strftime_Ymd t)"
  by (cases t) (simp add: stripped_def strftime_Ymd_def pad2_def pad4_def not_space_digit is_digit_digit_char)

lemma stripped_strftime_HMS: "stripped (strftime_HMS t)"
  by (cases t) (simp add: stripped_def strftime_HMS_def pad2_def not_space_digit is_digit_digit_char)

lemma stripped_parse_date: "stripped_opt (parse_date s)"
  by (simp add: stripped_opt_def parse_date_def stripped_strftime_Ymd split: option.splits)

lemma stripped_parse_time: "stripped_opt (parse_time s)"
  by (simp add: stripped_opt_def parse_time_def stripped_strftime_HMS split: option.splits)

text \<open>
  Claim C5, as the code has it. Every field of more than one character is stripped: no
  text field of a patient, order, result or comment record starts or ends with
  whitespace, and a date or time is absent or free of whitespace. The three fields of
  one character (gender, insurance type, abnormal flag) are the character of the line at
  their offset, taken as it is.
\<close>

theorem multi_character_fields_stripped:
  "stripped (pat_id (parse_patient_record l)) \<and> stripped (pat_last_name (parse_patient_record l))
   \<and> stripped (pat_first_name (parse_patient_record l)) \<and> stripped (pat_insurance_number (parse_patient_record l))
   \<and> stripped_opt (pat_birth_date (parse_patient_record l))
   \<and> stripped (ord_id (parse_order_record l)) \<and> stripped (ord_ordering_physician (parse_order_record l))
   \<and> stripped (ord_laboratory (parse_order_record l))
   \<and> stripped_opt (ord_order_date (parse_order_record l)) \<and> stripped_opt (ord_order_time (parse_order_record l))
   \<and> stripped (res_id (parse_result_record l)) \<and> stripped (res_test_code (parse_result_record l))
   \<and> stripped (res_test_name (parse_result_record l)) \<and> stripped (res_result_value (parse_result_record l))
   \<and> stripped (res_unit (parse_result_record l)) \<and> stripped (res_reference_range (parse_result_record l))
   \<and> stripped_opt (res_result_date (parse_result_record l)) \<and> stripped_opt (res_result_time (parse_result_record l))
   \<and> stripped (com_id (parse_comment_record l)) \<and> stripped (com_comment_text (parse_comment_record l))
   \<and> stripped_opt (com_comment_date (parse_comment_record l)) \<and> stripped_opt (com_comment_time (parse_comment_record l))
   \<and> pat_gender (parse_patient_record l) = slice 70 71 l
   \<and> pat_insurance_type (parse_patient_record l) = slice 81 82 l
   \<and> res_abnormal_flag (parse_result_record l) = slice 172 173 l"
  by (simp add: parse_patient_record_def parse_order_record_def parse_result_record_def
      parse_comment_record_def stripped_py_strip stripped_parse_date stripped_parse_time)

text \<open>
  The theorem on a concrete patient line.
\<close>

theorem multi_character_fields_stripped_witness:
  "stripped (pat_id (parse_patient_record blank_gender_line))
   \<and> pat_id (parse_patient_record blank_gender_line) = ''PATIENT001''
   \<and> stripped (pat_last_name (parse_patient_record blank_gender_line))
   \<and> pat_last_name (parse_patient_record blank_gender_line) = ''DOE''
   \<and> stripped_opt (pat_birth_date (parse_patient_record blank_gender_line))
   \<and> pat_birth_date (parse_patient_record blank_gender_line) = Some ''1980-01-01''
   \<and> pat_gender (parse_patient_record blank_gender_line) = slice 70 71 blank_gender_line"
proof -
  have a: "pat_id (parse_patient_record blank_gender_line) = ''PATIENT001''" by code_simp
  have b: "pat_last_name (parse_patient_record blank_gender_line) = ''DOE''" by code_simp
  have c: "pat_birth_date (parse_patient_record blank_gender_line) = Some ''1980-01-01''" by code_simp
  from multi_character_fields_stripped[of blank_gender_line] a b c show ?thesis by blast
qed

text \<open>
  Claim C5 as stated fails: on a patient line with a blank in the gender column the
  decoded gender is that blank.
\<close>

theorem single_character_field_not_stripped:
  "pat_gender (parse_patient_record blank_gender_line) = '' ''
   \<and> \<not> stripped (pat_gender (parse_patient_record blank_gender_line))"
  by code_simp

lemma assemble_append:
  "assemble now n (xs @ ys) st = assemble now (n + length xs) ys (assemble now n xs st)"
  by (induction xs arbitrary: n st) simp_all

lemma process_line_malformed:
  "malformed_line l \<Longrightarrow> process_line now n l st = st\<lparr>errors := errors st @ [unknown_record_type n (take 2 l)]\<rparr>"
  by (simp add: malformed_line_def process_line_def Let_def)

lemma process_line_errors_prefix:
  "process_line now n l (st\<lparr>errors := e @ e'\<rparr>)
     = (process_line now n l (st\<lparr>errors := e'\<rparr>))\<lparr>errors := e @ errors (process_line now n l (st\<lparr>errors := e'\<rparr>))\<rparr>"
  by (simp add: process_line_def Let_def cursor_patient_id_def cursor_order_id_def split: option.splits)

lemma assemble_errors_prefix:
  "assemble now n ls (st\<lparr>errors := e @ e'\<rparr>)
     = (assemble now n ls (st\<lparr>errors := e'\<rparr>))\<lparr>errors := e @ errors (assemble now n ls (st\<lparr>errors := e'\<rparr>))\<rparr>"
proof (induction ls arbitrary: n st e')
  case Nil
  show ?case by simp
next
  case (Cons l ls)
  let ?p = "process_line now n l (st\<lparr>errors := e'\<rparr>)"
  have "assemble now n (l # ls) (st\<lparr>errors := e @ e'\<rparr>)
        = assemble now (Suc n) ls (?p\<lparr>errors := e @ errors ?p\<rparr>)"
    by (simp add: process_line_errors_prefix)
  also have "\<dots> = (assemble now (Suc n) ls (?p\<lparr>errors := errors ?p\<rparr>))
                     \<lparr>errors := e @ errors (assemble now (Suc n) ls (?p\<lparr>errors := errors ?p\<rparr>))\<rparr>"
    by (rule Cons.IH)
  finally show ?case by simp
qed

lemma process_line_valid_errors:
  "valid_line l \<Longrightarrow> errors (process_line now n l st) = errors st"
  by (simp add: valid_line_def process_line_def Let_def split: option.splits)

lemma assemble_valid_errors:
  "list_all valid_line ls \<Longrightarrow> errors (assemble now n ls st) = errors st"
  by (induction ls arbitrary: n st) (simp_all add: process_line_valid_errors)

lemma process_line_valid_count:
  "valid_line l \<Longrightarrow>
   assembly_count (process_line now n l st) = assembly_count st + (if record_line l then 1 else 0)"
  by (auto simp: valid_line_def record_line_def RECORD_TYPES_def process_line_def Let_def assembly_count_def
      split: option.splits)

lemma assemble_valid_count:
  "list_all valid_line ls \<Longrightarrow>
   assembly_count (assemble now n ls st) = assembly_count st + length (filter record_line ls)"
  by (induction ls arbitrary: n st) (simp_all add: process_line_valid_count)

lemma process_line_clock:
  "now n = now' n \<Longrightarrow> process_line now n l st = process_line now' n l st"
  by (simp add: process_line_def Let_def split: option.splits)

lemma assemble_clock_cong:
  "(\<And>k. n \<le> k \<Longrightarrow> k < n + length ls \<Longrightarrow> now k = now' k) \<Longrightarrow>
   assemble now n ls st = assemble now' n ls st"
proof (induction ls arbitrary: n st)
  case Nil
  show ?case by simp
next
  case (Cons l ls)
  have 1: "process_line now n l st = process_line now' n l st"
    by (rule process_line_clock) (simp add: Cons.prems)
  have 2: "assemble now (Suc n) ls (process_line now' n l st) = assemble now' (Suc n) ls (process_line now' n l st)"
    by (rule Cons.IH) (simp add: Cons.prems)
  show ?case by (simp add: 1 2)
qed

lemma process_line_valid_shift:
  "valid_line l \<Longrightarrow> process_line now (Suc n) l st = process_line (\<lambda>k. now (Suc k)) n l st"
  by (simp add: valid_line_def process_line_def Let_def)

lemma assemble_valid_shift:
  "list_all valid_line ls \<Longrightarrow> assemble now (Suc n) ls st = assemble (\<lambda>k. now (Suc k)) n ls st"
  by (induction ls arbitrary: n st) (simp_all add: process_line_valid_shift)

lemma assemble_one_malformed:
  assumes pre: "list_all valid_line pre" and post: "list_all valid_line post"
    and bad: "malformed_line bad" and e: "errors st = []"
  shows "assemble now 1 (pre @ bad # post) st
         = (assemble (skip_clock (Suc (length pre)) now) 1 (pre @ post) st)
             \<lparr>errors := [unknown_record_type (Suc (length pre)) (take 2 bad)]\<rparr>"
proof -
  let ?k = "Suc (length pre)"
  let ?msg = "unknown_record_type ?k (take 2 bad)"
  define A where "A = assemble now 1 pre st"
  define B where "B = assemble now (Suc ?k) post A"
  have eA: "errors A = []" by (simp add: A_def assemble_valid_errors[OF pre] e)
  have eB: "errors B = []" by (simp add: B_def assemble_valid_errors[OF post] eA)
  have A0: "A\<lparr>errors := []\<rparr> = A" using eA by simp
  have "assemble now 1 (pre @ bad # post) st = assemble now (Suc ?k) post (process_line now ?k bad A)"
    by (simp add: assemble_append A_def)
  also have "process_line now ?k bad A = A\<lparr>errors := [?msg] @ []\<rparr>"
    by (simp add: process_line_malformed[OF bad] eA)
  also have "assemble now (Suc ?k) post (A\<lparr>errors := [?msg] @ []\<rparr>)
             = (assemble now (Suc ?k) post (A\<lparr>errors := []\<rparr>))
                 \<lparr>errors := [?msg] @ errors (assemble now (Suc ?k) post (A\<lparr>errors := []\<rparr>))\<rparr>"
    by (rule assemble_errors_prefix)
  also have "\<dots> = B\<lparr>errors := [?msg]\<rparr>" by (simp add: A0 B_def[symmetric] eB)
  finally have L: "assemble now 1 (pre @ bad # post) st = B\<lparr>errors := [?msg]\<rparr>" .
  have A': "assemble (skip_clock ?k now) 1 pre st = A"
    unfolding A_def by (rule assemble_clock_cong) (simp add: skip_clock_def)
  have "B = assemble (\<lambda>k. now (Suc k)) ?k post A"
    unfolding B_def by (rule assemble_valid_shift[OF post])
  also have "\<dots> = assemble (skip_clock ?k now) ?k post A"
    by (rule assemble_clock_cong) (simp add: skip_clock_def)
  finally have "assemble (skip_clock ?k now) 1 (pre @ post) st = B"
    using A' by (simp add: assemble_append)
  with L show ?thesis by simp
qed

text \<open>
  Claim C10. The error list of a processor is never reset: the errors returned by a
  second parse are the errors returned by the first parse followed by the errors the
  second content produces on a fresh processor. So the same content gives different
  errors on a fresh processor and on one that has parsed a faulty file before.
\<close>

theorem errors_accumulate_across_parses:
  "pd_errors (fst (parse_ldt_content now2 c2 (snd (parse_ldt_content now1 c1 self))))
     = pd_errors (fst (parse_ldt_content now1 c1 self)) @ pd_errors (fst (parse_ldt_content now2 c2 init_processor))
   \<and> pd_errors (fst (parse_ldt_content now ''XX'' (snd (parse_ldt_content now ''YY'' init_processor))))
     \<noteq> pd_errors (fst (parse_ldt_content now ''XX'' init_processor))"
proof
  let ?st0 = "\<lparr> patients = [], orders = [], results = [], comments = [],
                current_patient = None, current_order = None, errors = [] \<rparr>"
  let ?e1 = "pd_errors (fst (parse_ldt_content now1 c1 self))"
  have "assemble now2 1 (ldt_lines c2) (?st0\<lparr>errors := ?e1 @ []\<rparr>)
        = (assemble now2 1 (ldt_lines c2) (?st0\<lparr>errors := []\<rparr>))
            \<lparr>errors := ?e1 @ errors (assemble now2 1 (ldt_lines c2) (?st0\<lparr>errors := []\<rparr>))\<rparr>"
    by (rule assemble_errors_prefix)
  then show "pd_errors (fst (parse_ldt_content now2 c2 (snd (parse_ldt_content now1 c1 self))))
     = ?e1 @ pd_errors (fst (parse_ldt_content now2 c2 init_processor))"
    by (simp add: parse_ldt_content_def Let_def init_processor_def)
next
  have "ldt_lines ''XX'' = [''XX'']" "ldt_lines ''YY'' = [''YY'']" by code_simp+
  moreover have "py_strip ''XX'' = ''XX''" "py_strip ''YY'' = ''YY''" by code_simp+
  ultimately show "pd_errors (fst (parse_ldt_content now ''XX'' (snd (parse_ldt_content now ''YY'' init_processor))))
     \<noteq> pd_errors (fst (parse_ldt_content now ''XX'' init_processor))"
    by (simp add: parse_ldt_content_def Let_def init_processor_def process_line_def RECORD_TYPES_def)
qed

lemma record_count_assembly:
  "record_count (fst (parse_ldt_content now content self))
   = assembly_count (assemble now 1 (ldt_lines content)
       \<lparr> patients = [], orders = [], results = [], comments = [],
         current_patient = None, current_order = None, errors = self_errors self \<rparr>)"
  by (simp add: parse_ldt_content_def Let_def record_count_def assembly_count_def)

text \<open>
  Claim C7, as the code has it. When exactly one line of a file is malformed (its tag is
  not registered; no line can make the decoders raise) and all others are valid, a fresh
  processor returns exactly one error, \<open>Line k: Unknown record type <tag>\<close> with \<open>k\<close> the
  number of that line, and one record for each valid line of type 01 to 04; the end
  markers 05 to 07 yield no record. The records are those of the file without the
  malformed line, read at the same instants.
\<close>

theorem one_malformed_line_is_skipped:
  assumes "ldt_lines content = pre @ bad # post"
    and "list_all valid_line pre" and "list_all valid_line post"
    and "malformed_line bad" and "self_errors self = []"
  shows "pd_errors (fst (parse_ldt_content now content self))
           = [unknown_record_type (Suc (length pre)) (take 2 bad)]
       \<and> record_count (fst (parse_ldt_content now content self)) = length (filter record_line (pre @ post))
       \<and> (ldt_lines content' = pre @ post \<longrightarrow>
            same_records (fst (parse_ldt_content now content self))
              (fst (parse_ldt_content (skip_clock (Suc (length pre)) now) content' self)))"
proof -
  let ?st0 = "\<lparr> patients = [], orders = [], results = [], comments = [],
                current_patient = None, current_order = None, errors = self_errors self \<rparr>"
  let ?sc = "skip_clock (Suc (length pre)) now"
  let ?msg = "unknown_record_type (Suc (length pre)) (take 2 bad)"
  have e0: "errors ?st0 = []" using assms(5) by simp
  have vl: "list_all valid_line (pre @ post)" using assms(2,3) by simp
  have eq: "assemble now 1 (ldt_lines content) ?st0 = (assemble ?sc 1 (pre @ post) ?st0)\<lparr>errors := [?msg]\<rparr>"
    unfolding assms(1) by (rule assemble_one_malformed[OF assms(2,3,4) e0])
  have 1: "pd_errors (fst (parse_ldt_content now content self)) = [?msg]"
    using eq by (simp add: parse_ldt_content_def Let_def)
  have "assembly_count ((assemble ?sc 1 (pre @ post) ?st0)\<lparr>errors := [?msg]\<rparr>)
        = assembly_count (assemble ?sc 1 (pre @ post) ?st0)"
    by (simp add: assembly_count_def)
  also have "\<dots> = assembly_count ?st0 + length (filter record_line (pre @ post))"
    by (rule assemble_valid_count[OF vl])
  finally have 2: "record_count (fst (parse_ldt_content now content self)) = length (filter record_line (pre @ post))"
    using eq by (simp add: record_count_assembly assembly_count_def)
  have 3: "same_records (fst (parse_ldt_content now content self)) (fst (parse_ldt_content ?sc content' self))"
    if "ldt_lines content' = pre @ post"
    using eq that by (simp add: parse_ldt_content_def Let_def same_records_def)
  from 1 2 3 show ?thesis by blast
qed

text \<open>
  The theorem on a file of four lines, the second of them malformed: two records, not
  three, since the last line is an end marker.
\<close>

theorem one_malformed_line_is_skipped_witness:
  "ldt_lines sample_content = [''01P1''] @ ''XX'' # [''02O1'', ''05'']
   \<and> list_all valid_line [''01P1''] \<and> list_all valid_line [''02O1'', ''05'']
   \<and> malformed_line ''XX'' \<and> self_errors init_processor = []
   \<and> ldt_lines sample_content_without = [''01P1''] @ [''02O1'', ''05'']
   \<and> pd_errors (fst (parse_ldt_content fixed_clock sample_content init_processor))
        = [''Line 2: Unknown record type XX'']
   \<and> record_count (fst (parse_ldt_content fixed_clock sample_content init_processor)) = 2
   \<and> same_records (fst (parse_ldt_content fixed_clock sample_content init_processor))
        (fst (parse_ldt_content (skip_clock 2 fixed_clock) sample_content_without init_processor))"
proof -
  have a: "ldt_lines sample_content = [''01P1''] @ ''XX'' # [''02O1'', ''05'']" by code_simp
  have b: "list_all valid_line [''01P1'']" by code_simp
  have c: "list_all valid_line [''02O1'', ''05'']" by code_simp
  have d: "malformed_line ''XX''" by code_simp
  have e: "self_errors init_processor = []" by code_simp
  have f: "ldt_lines sample_content_without = [''01P1''] @ [''02O1'', ''05'']" by code_simp
  have g: "unknown_record_type 2 (take 2 ''XX'') = ''Line 2: Unknown record type XX''"
    by code_simp
  have h: "length (filter record_line ([''01P1''] @ [''02O1'', ''05''])) = 2" by code_simp
  have i: "Suc (length [''01P1'']) = 2" by simp
  note th = one_malformed_line_is_skipped[OF a b c d e, of fixed_clock sample_content_without]
  from th[unfolded i g h] f have
    "pd_errors (fst (parse_ldt_content fixed_clock sample_content init_processor))
        = [''Line 2: Unknown record type XX'']
     \<and> record_count (fst (parse_ldt_content fixed_clock sample_content init_processor)) = 2
     \<and> same_records (fst (parse_ldt_content fixed_clock sample_content init_processor))
        (fst (parse_ldt_content (skip_clock 2 fixed_clock) sample_content_without init_processor))"
    by blast
  with a b c d e f show ?thesis by blast
qed

text \<open>
  Claim C7 as stated fails: a file of two lines, a valid end-of-order marker and a
  malformed line, yields no record at all, not one.
\<close>

theorem end_marker_yields_no_record:
  "ldt_lines (''05'' @ [CHR 0x0A] @ ''XX'') = [''05'', ''XX'']
   \<and> valid_line ''05'' \<and> malformed_line ''XX''
   \<and> record_count (fst (parse_ldt_content fixed_clock (''05'' @ [CHR 0x0A] @ ''XX'') init_processor)) = 0
   \<and> pd_errors (fst (parse_ldt_content fixed_clock (''05'' @ [CHR 0x0A] @ ''XX'') init_processor))
        = [''Line 2: Unknown record type XX'']"
  by code_simp

section \<open>Properties of the segment decoder\<close>

lemma split_on_nonempty: "split_on c s \<noteq> []"
  by (induction s) (auto split: list.splits)

lemma length_split_on: "length (split_on c s) = Suc (count_list s c)"
  by (induction s) (auto split: list.splits simp: split_on_nonempty)

lemma split_on_part:
  "l \<in> set (split_on c s) \<Longrightarrow> \<exists>pre post. s = pre @ l @ post"
proof (induction s arbitrary: l)
  case Nil
  then show ?case by simp
next
  case (Cons a s)
  show ?case
  proof (cases "a = c")
    case True
    with Cons.prems have "l = [] \<or> l \<in> set (split_on c s)" by simp
    then show ?thesis
    proof
      assume "l = []"
      then have "a # s = [] @ l @ (a # s)" by simp
      then show ?thesis by blast
    next
      assume "l \<in> set (split_on c s)"
      then obtain pre post where "s = pre @ l @ post" using Cons.IH by blast
      then have "a # s = (a # pre) @ l @ post" by simp
      then show ?thesis by blast
    qed
  next
    case False
    obtain p ps where sp: "split_on c s = p # ps" using split_on_nonempty by (cases "split_on c s") auto
    with False Cons.prems have "l = a # p \<or> l \<in> set ps" by simp
    then show ?thesis
    proof
      assume l: "l = a # p"
      have "p \<in> set (split_on c s)" by (simp add: sp)
      then obtain pre post where s: "s = pre @ p @ post" using Cons.IH by blast
      have "hd (split_on c s) = p" by (simp add: sp)
      have "\<exists>post. s = p @ post" using sp
      proof (induction s arbitrary: p ps)
        case Nil
        then show ?case by simp
      next
        case (Cons b s)
        then show ?case by (auto split: if_splits list.splits simp: split_on_nonempty)
      qed
      then obtain post' where "s = p @ post'" by blast
      then have "a # s = [] @ l @ post'" by (simp add: l)
      then show ?thesis by blast
    next
      assume "l \<in> set ps"
      then have "l \<in> set (split_on c s)" by (simp add: sp)
      then obtain pre post where "s = pre @ l @ post" using Cons.IH by blast
      then have "a # s = (a # pre) @ l @ post" by simp
      then show ?thesis by blast
    qed
  qed
qed

lemma hd_split_on_prefix: "\<exists>rest. s = hd (split_on c s) @ rest"
proof (induction s)
  case Nil
  show ?case by simp
next
  case (Cons a s)
  then show ?case by (auto split: list.splits simp: split_on_nonempty)
qed

lemma contains_here: "contains sub (sub @ post)"
proof (cases "sub @ post")
  case Nil
  then show ?thesis by simp
next
  case (Cons a l)
  have "take (length sub) (sub @ post) = sub" by simp
  then show ?thesis by (simp add: Cons)
qed

lemma contains_append: "contains sub (pre @ sub @ post)"
  by (induction pre) (simp_all add: contains_here)

lemma tag_contained:
  assumes "t \<in> set (segment_tags raw)"
  shows "contains t raw"
proof -
  from assms obtain l where l: "l \<in> set (split_on CHR 0x0A raw)" and t: "t = hd (split_on CHR ''|'' l)"
    by (auto simp: segment_tags_def)
  from l obtain pre post where r: "raw = pre @ l @ post" using split_on_part by blast
  obtain rest where "l = t @ rest" using hd_split_on_prefix[of l "CHR ''|''"] t by blast
  with r have "raw = pre @ t @ (rest @ post)" by simp
  then show ?thesis using contains_append by metis
qed

text \<open>
  Claim C8. The named fields of every segment type (header, patient, order, observation
  request, observation result) are read by position from the parts of the split line:
  the field at position \<open>i\<close> is part \<open>i\<close> when the line has that many parts and the empty
  string when it has not. The decoders are total, and on a bare tag (at most one part)
  every field of every segment type is empty.
\<close>

theorem segment_fields_positional:
  "part segments i = (if i < length segments then segments ! i else [])
   \<and> parse_msh_segment segments =
       \<lparr> msh_sending_facility = part segments 3, msh_receiving_facility = part segments 4,
         msh_message_datetime = part segments 6, msh_message_type = part segments 8,
         msh_message_control_id = part segments 9, msh_processing_id = part segments 10,
         msh_version_id = part segments 11 \<rparr>
   \<and> obx_set_id (parse_obx_segment segments) = part segments 1
   \<and> obx_value_type (parse_obx_segment segments) = part segments 2
   \<and> obx_observation_id (parse_obx_segment segments) = part segments 3
   \<and> obx_sub_id (parse_obx_segment segments) = part segments 4
   \<and> obx_observation_value (parse_obx_segment segments) = part segments 5
   \<and> obx_units (parse_obx_segment segments) = part segments 6
   \<and> obx_reference_range (parse_obx_segment segments) = part segments 7
   \<and> obx_abnormal_flags (parse_obx_segment segments) = part segments 8
   \<and> obx_probability (parse_obx_segment segments) = part segments 9
   \<and> obx_nature_of_abnormal_test (parse_obx_segment segments) = part segments 10
   \<and> obx_observation_result_status (parse_obx_segment segments) = part segments 11
   \<and> obx_effective_date_of_reference_range (parse_obx_segment segments) = part segments 12
   \<and> obx_user_defined_access_checks (parse_obx_segment segments) = part segments 13
   \<and> obx_observation_datetime (parse_obx_segment segments) = part segments 14
   \<and> obx_producer_id (parse_obx_segment segments) = part segments 15
   \<and> obx_responsible_observer (parse_obx_segment segments) = part segments 16
   \<and> (length segments \<le> 1 \<longrightarrow>
        parse_msh_segment segments = parse_msh_segment [] \<and> parse_pid_segment segments = parse_pid_segment []
      \<and> parse_orc_segment segments = parse_orc_segment [] \<and> parse_obr_segment segments = parse_obr_segment []
      \<and> parse_obx_segment segments = empty_obx)
   \<and> obx_set_id empty_obx = [] \<and> obx_observation_value empty_obx = [] \<and> obx_units empty_obx = []
   \<and> obx_responsible_observer empty_obx = []
   \<and> parse_pid_segment segments =
       \<lparr> pid_patient_id = part segments 3, pid_patient_name = part segments 5,
         pid_date_of_birth = part segments 7, pid_gender = part segments 8 \<rparr>
   \<and> parse_orc_segment segments =
       \<lparr> orc_order_control = part segments 1, orc_placer_order_number = part segments 2,
         orc_filler_order_number = part segments 3, orc_placer_group_number = part segments 4 \<rparr>
   \<and> parse_obr_segment segments =
       \<lparr> obr_set_id = part segments 1, obr_placer_order_number = part segments 2,
         obr_filler_order_number = part segments 3, obr_universal_service_id = part segments 4,
         obr_priority = part segments 5, obr_requested_datetime = part segments 6,
         obr_observation_datetime = part segments 7, obr_specimen_received_datetime = part segments 14 \<rparr>
   \<and> parse_msh_segment [] =
       \<lparr> msh_sending_facility = [], msh_receiving_facility = [], msh_message_datetime = [],
         msh_message_type = [], msh_message_control_id = [], msh_processing_id = [],
         msh_version_id = [] \<rparr>
   \<and> parse_pid_segment [] =
       \<lparr> pid_patient_id = [], pid_patient_name = [], pid_date_of_birth = [], pid_gender = [] \<rparr>
   \<and> parse_orc_segment [] =
       \<lparr> orc_order_control = [], orc_placer_order_number = [], orc_filler_order_number = [],
         orc_placer_group_number = [] \<rparr>
   \<and> parse_obr_segment [] =
       \<lparr> obr_set_id = [], obr_placer_order_number = [], obr_filler_order_number = [],
         obr_universal_service_id = [], obr_priority = [], obr_requested_datetime = [],
         obr_observation_datetime = [], obr_specimen_received_datetime = [] \<rparr>
   \<and> empty_obx =
       \<lparr> obx_set_id = [], obx_value_type = [], obx_observation_id = [], obx_sub_id = [],
         obx_observation_value = [], obx_units = [], obx_reference_range = [],
         obx_abnormal_flags = [], obx_probability = [], obx_nature_of_abnormal_test = [],
         obx_observation_result_status = [], obx_effective_date_of_reference_range = [],
         obx_user_defined_access_checks = [], obx_observation_datetime = [],
         obx_producer_id = [], obx_responsible_observer = [] \<rparr>"
  by (simp add: part_def parse_msh_segment_def parse_pid_segment_def parse_orc_segment_def
      parse_obr_segment_def parse_obx_segment_def empty_obx_def)

text \<open>
  The theorem on a bare \<open>OBX\<close> tag, on an observation result cut short after its units,
  and on a patient segment cut short after the patient identifier.
\<close>

theorem segment_fields_positional_witness:
  "length (split_on CHR ''|'' ''OBX'') \<le> 1
   \<and> parse_obx_segment (split_on CHR ''|'' ''OBX'') = empty_obx
   \<and> parse_msh_segment (split_on CHR ''|'' ''OBX'') = parse_msh_segment []
   \<and> obx_observation_value (parse_obx_segment (split_on CHR ''|'' ''OBX|1|NM|GLU^GLU|1|120|mg/dL'')) = ''120''
   \<and> obx_reference_range (parse_obx_segment (split_on CHR ''|'' ''OBX|1|NM|GLU^GLU|1|120|mg/dL'')) = []
   \<and> parse_pid_segment (split_on CHR ''|'' ''PID|1||P123'') =
       \<lparr> pid_patient_id = ''P123'', pid_patient_name = [], pid_date_of_birth = [], pid_gender = [] \<rparr>"
proof -
  let ?bare = "split_on CHR ''|'' ''OBX''"
  let ?glu = "split_on CHR ''|'' ''OBX|1|NM|GLU^GLU|1|120|mg/dL''"
  let ?pid = "split_on CHR ''|'' ''PID|1||P123''"
  have a: "length ?bare \<le> 1" by code_simp
  have b: "part ?glu 5 = ''120''" by code_simp
  have c: "part ?glu 7 = []" by code_simp
  have d: "part ?pid 3 = ''P123''" "part ?pid 5 = []" "part ?pid 7 = []" "part ?pid 8 = []" by code_simp+
  from segment_fields_positional[of ?bare 0] a
  have 1: "parse_obx_segment ?bare = empty_obx \<and> parse_msh_segment ?bare = parse_msh_segment []"
    by blast
  from segment_fields_positional[of ?glu 0]
  have 2: "obx_observation_value (parse_obx_segment ?glu) = part ?glu 5
      \<and> obx_reference_range (parse_obx_segment ?glu) = part ?glu 7"
    by blast
  from segment_fields_positional[of ?pid 0]
  have 3: "parse_pid_segment ?pid =
       \<lparr> pid_patient_id = part ?pid 3, pid_patient_name = part ?pid 5,
         pid_date_of_birth = part ?pid 7, pid_gender = part ?pid 8 \<rparr>"
    by blast
  from a b c d 1 2 3 show ?thesis by simp
qed

text \<open>
  What the statistics are, for every raw message. The segment count is the number of
  lines of the raw text, blank lines included (one more than its newlines), so it is at
  least the number of segments; the segment types are the distinct tags of the
  segments; the size is the length of the text; and a presence flag holds exactly when
  the tag occurs somewhere in the raw text, which the presence of such a segment
  implies.
\<close>

lemma message_structure_statistics:
  "total_segments (extract_message_structure raw) = length (split_on CHR 0x0A raw)
   \<and> total_segments (extract_message_structure raw) = Suc (count_list raw (CHR 0x0A))
   \<and> length (filter nonblank (split_on CHR 0x0A raw)) \<le> total_segments (extract_message_structure raw)
   \<and> set (segment_types (extract_message_structure raw)) = set (segment_tags raw)
   \<and> distinct (segment_types (extract_message_structure raw))
   \<and> message_size (extract_message_structure raw) = length raw
   \<and> has_patient_data (extract_message_structure raw) = contains ''PID'' raw
   \<and> has_order_data (extract_message_structure raw) = contains ''ORC'' raw
   \<and> has_result_data (extract_message_structure raw) = contains ''OBX'' raw
   \<and> (''PID'' \<in> set (segment_tags raw) \<longrightarrow> has_patient_data (extract_message_structure raw))
   \<and> (''ORC'' \<in> set (segment_tags raw) \<longrightarrow> has_order_data (extract_message_structure raw))
   \<and> (''OBX'' \<in> set (segment_tags raw) \<longrightarrow> has_result_data (extract_message_structure raw))"
proof -
  have nb: "(\<lambda>line. py_strip line \<noteq> []) = nonblank" by (simp add: nonblank_def fun_eq_iff)
  have le: "length (filter nonblank (split_on CHR 0x0A raw)) \<le> length (split_on CHR 0x0A raw)"
    by (rule length_filter_le)
  have tags: "set (segment_types (extract_message_structure raw)) = set (segment_tags raw)"
    by (simp add: extract_message_structure_def segment_tags_def nb)
  have 1: "has_patient_data (extract_message_structure raw) = contains ''PID'' raw"
    and 2: "has_order_data (extract_message_structure raw) = contains ''ORC'' raw"
    and 3: "has_result_data (extract_message_structure raw) = contains ''OBX'' raw"
    and 4: "total_segments (extract_message_structure raw) = length (split_on CHR 0x0A raw)"
    and 5: "message_size (extract_message_structure raw) = length raw"
    and 6: "distinct (segment_types (extract_message_structure raw))"
    by (simp_all add: extract_message_structure_def)
  show ?thesis unfolding 1 2 3 4 5 tags using le 6 tag_contained length_split_on by auto
qed

text \<open>
  On a message with one observation-result segment.
\<close>

lemma message_structure_statistics_instance:
  "''OBX'' \<in> set (segment_tags rapid_message) \<and> has_result_data (extract_message_structure rapid_message)"
proof -
  have a: "''OBX'' \<in> set (segment_tags rapid_message)" by code_simp
  from message_structure_statistics[of rapid_message] a show ?thesis by blast
qed

text \<open>
  Claim C9 at a message whose only segment is an observation result naming a
  \<open>RAPID TEST\<close>, ended by a newline. The patient flag is set although no segment has the
  tag \<open>PID\<close>, neither among the segment types of the same statistics nor for the decoder,
  which finds no patient segment; and the segment count is 2 for the one segment there
  is, the empty line after the newline being counted.
\<close>

theorem presence_flag_without_segment:
  "has_patient_data (extract_message_structure rapid_message)
   \<and> ''PID'' \<notin> set (segment_tags rapid_message)
   \<and> segment_types (extract_message_structure rapid_message) = [''OBX'']
   \<and> pid (parse_ldt_message rapid_message) = None
   \<and> total_segments (extract_message_structure rapid_message) = 2
   \<and> length (filter nonblank (split_on CHR 0x0A rapid_message)) = 1"
  by code_simp

section \<open>Properties of the processing pipeline\<close>


lemma task_from_all_raise:
  "(\<And>i. i \<le> left \<Longrightarrow> \<exists>exc. env (r + i) = Raises exc) \<Longrightarrow>
   task_from accepts env left r k db = (Crashed, db)"
proof (induction left arbitrary: r)
  case 0
  from 0[of 0] show ?case by auto
next
  case (Suc left)
  from Suc.prems[of 0] obtain exc where e: "env r = Raises exc" by auto
  have "task_from accepts env left (Suc r) k db = (Crashed, db)"
  proof (rule Suc.IH)
    show "\<exists>exc. env (Suc r + i) = Raises exc" if "i \<le> left" for i
      using Suc.prems[of "Suc i"] that by simp
  qed
  then show ?case by (simp add: e)
qed




text \<open>
  Claim C3, as the code has it by design. When every execution of the task raises, the
  task writes neither \<open>retry_count\<close> nor \<open>max_retries\<close>: after the retries are used up
  both are what they were before. The retries of the task are counted by the task queue;
  \<open>retry_count\<close> is written by the retry endpoint alone.
\<close>

theorem exhausted_retries_leave_retry_count:
  assumes "get_message k db = Some m" and "\<forall>i\<le>task_max_retries. \<exists>exc. env i = Raises exc"
  shows "map_option retry_count (get_message k (snd (process_ldt_message_task accepts env k db)))
           = Some (retry_count m)
       \<and> map_option max_retries (get_message k (snd (process_ldt_message_task accepts env k db)))
           = Some (max_retries m)"
proof -
  have "task_from accepts env task_max_retries 0 k db = (Crashed, db)"
    by (rule task_from_all_raise) (use assms(2) in simp)
  then show ?thesis using assms(1) by (simp add: process_ldt_message_task_def)
qed

text \<open>
  The theorem on a message just received, every execution losing its connection.
\<close>

theorem exhausted_retries_leave_retry_count_witness:
  "get_message 1 received_database = Some (new_message 1 ''MSG001'' RESULT glucose_line)
   \<and> always_raises 0 = Raises ''connection lost'' \<and> always_raises 3 = Raises ''connection lost''
   \<and> map_option retry_count (get_message 1 (snd (process_ldt_message_task accept_all always_raises 1 received_database)))
        = Some 0
   \<and> map_option max_retries (get_message 1 (snd (process_ldt_message_task accept_all always_raises 1 received_database)))
        = Some 3"
proof -
  have a: "get_message 1 received_database = Some (new_message 1 ''MSG001'' RESULT glucose_line)" by code_simp
  have b: "\<forall>i\<le>task_max_retries. \<exists>exc. always_raises i = Raises exc"
    by (simp add: always_raises_def)
  have c: "always_raises 0 = Raises ''connection lost''" "always_raises 3 = Raises ''connection lost''"
    by (simp_all add: always_raises_def)
  have d: "retry_count (new_message 1 ''MSG001'' RESULT glucose_line) = 0"
    "max_retries (new_message 1 ''MSG001'' RESULT glucose_line) = 3"
    by (simp_all add: new_message_def)
  from exhausted_retries_leave_retry_count[OF a b, of accept_all] a c d show ?thesis by simp
qed

text \<open>
  Claim C3 as stated fails: after the retries are used up the message just received has
  \<open>retry_count\<close> 0 and \<open>max_retries\<close> 3.
\<close>

theorem exhausted_retries_retry_count_not_max:
  "map retry_count (ldt_messages (snd (process_ldt_message_task accept_all always_raises 1 received_database))) = [0]
   \<and> map max_retries (ldt_messages (snd (process_ldt_message_task accept_all always_raises 1 received_database))) = [3]"
  by code_simp

text \<open>
  The statements that would mark the message as failed are never run: when every
  execution raises, the task ends with an exception and the database is as it was, the
  message still \<open>Received\<close>.
\<close>

lemma exhausted_retries_change_nothing:
  assumes "\<forall>i\<le>task_max_retries. \<exists>exc. env i = Raises exc"
  shows "process_ldt_message_task accepts env k db = (Crashed, db)"
  unfolding process_ldt_message_task_def
  by (rule task_from_all_raise) (use assms in simp)

lemma replace_last_fresh:
  "list_all (\<lambda>w. wf_pk w < k) ws \<Longrightarrow> wf_pk w = k \<Longrightarrow> wf_pk w' = k \<Longrightarrow>
   map (\<lambda>x. if wf_pk x = wf_pk w' then w' else x) (ws @ [w]) = ws @ [w']"
  by (induction ws) auto

lemma save_workflow_last:
  assumes "list_all (\<lambda>w. wf_pk w < k) ws" and "wf_pk w = k" and "wf_pk w' = k"
    and "result_workflows d = ws @ [w]"
  shows "result_workflows (save_workflow w' d) = ws @ [w']"
  using replace_last_fresh[OF assms(1,2,3)] assms(4) by (simp add: save_workflow_def)

lemma execute_workflow_last:
  assumes la: "list_all (\<lambda>w. wf_pk w < k) ws" and k: "wf_pk w = k"
    and d: "result_workflows d = ws @ [w]"
  shows "result_workflows (execute_workflow started completed w d)
         = ws @ [w\<lparr>wf_status := COMPLETED, started_at := Some started, completed_at := Some completed\<rparr>]"
proof -
  let ?w1 = "w\<lparr>wf_status := IN_PROGRESS, started_at := Some started\<rparr>"
  let ?w2 = "?w1\<lparr>wf_status := COMPLETED, completed_at := Some completed\<rparr>"
  let ?d1 = "save_workflow ?w1 d"
  let ?d2 = "if workflow_type ?w1 = AUTO_VALIDATION then execute_auto_validation ?w1 ?d1 else ?d1"
  have 1: "result_workflows ?d1 = ws @ [?w1]"
    by (rule save_workflow_last[OF la k _ d]) (simp add: k)
  have 2: "result_workflows ?d2 = ws @ [?w1]"
    using 1 by (simp add: execute_auto_validation_def)
  have 3: "result_workflows (save_workflow ?w2 ?d2) = ws @ [?w2]"
    by (rule save_workflow_last[OF la _ _ 2]) (simp_all add: k)
  have "execute_workflow started completed w d = save_workflow ?w2 ?d2"
    by (simp add: execute_workflow_def Let_def)
  then show ?thesis using 3 by simp
qed

lemma run_created_workflow:
  assumes fresh: "fresh_keys db" and free: "no_workflow_named wid db"
  shows "result_workflows
           (case create_workflow wid kind db of
              Inl e \<Rightarrow> db
            | Inr (workflow, db1) \<Rightarrow>
                (case add_result r workflow db1 of
                   (workflow', db2) \<Rightarrow> execute_workflow started completed workflow' db2))
         = result_workflows db @ [completed_workflow (next_uuid db) wid kind (tr_pk r) started completed]"
proof -
  let ?k = "next_uuid db"
  let ?ws = "result_workflows db"
  let ?w0 = "\<lparr> wf_pk = ?k, workflow_id = wid, workflow_type = kind, wf_status = PENDING,
               wf_results = [], started_at = None, completed_at = None, wf_error_message = [] \<rparr>"
  let ?w1 = "?w0\<lparr>wf_results := wf_results ?w0 @ [tr_pk r]\<rparr>"
  let ?db1 = "db\<lparr>result_workflows := ?ws @ [?w0], next_uuid := Suc ?k\<rparr>"
  let ?db2 = "save_workflow ?w1 ?db1"
  have la: "list_all (\<lambda>w. wf_pk w < ?k) ?ws" using fresh by (simp add: fresh_keys_def)
  have c: "create_workflow wid kind db = Inr (?w0, ?db1)"
    using free by (simp add: create_workflow_def no_workflow_named_def Let_def)
  have a: "add_result r ?w0 ?db1 = (?w1, ?db2)" by (simp add: add_result_def Let_def)
  have 2: "result_workflows ?db2 = ?ws @ [?w1]"
    by (rule save_workflow_last[OF la, of ?w0]) simp_all
  have 3: "result_workflows (execute_workflow started completed ?w1 ?db2)
           = ?ws @ [?w1\<lparr>wf_status := COMPLETED, started_at := Some started, completed_at := Some completed\<rparr>]"
    by (rule execute_workflow_last[OF la _ 2]) simp
  have "?w1\<lparr>wf_status := COMPLETED, started_at := Some started, completed_at := Some completed\<rparr>
        = completed_workflow ?k wid kind (tr_pk r) started completed"
    by (simp add: completed_workflow_def)
  with 3 show ?thesis by (simp only: c a sum.case prod.case)
qed

lemma create_workflow_taken:
  "\<not> no_workflow_named wid db \<Longrightarrow> create_workflow wid kind db = Inl IntegrityError"
  by (simp add: create_workflow_def no_workflow_named_def)

text \<open>
  Claim C2, as the code has it. The two conditions are the branches of one
  \<open>if\<close>/\<open>elif\<close>, so a trigger adds at most one workflow and never an auto-validation
  for a critical result. In a table with unique keys, a critical result gets a
  critical-value alert, whatever its validation status, and a result that is not
  critical and awaits validation gets an auto-validation, each unless a workflow of
  the identifier to be used exists already: then the creation fails, the error is logged
  and nothing is added. Any other result gets nothing.
\<close>

theorem one_workflow_per_trigger:
  assumes "fresh_keys db"
  shows "result_workflows (trigger_workflow started completed r db)
         = result_workflows db @ triggered r db started completed
       \<and> length (triggered r db started completed) \<le> 1
       \<and> (is_critical r \<longrightarrow> AUTO_VALIDATION \<notin> set (map workflow_type (triggered r db started completed)))
       \<and> (is_critical r \<and> no_workflow_named (''CRITICAL_'' @ str_nat (tr_pk r)) db \<longrightarrow>
            map workflow_type (triggered r db started completed) = [CRITICAL_VALUE_ALERT])
       \<and> (is_critical r \<and> \<not> no_workflow_named (''CRITICAL_'' @ str_nat (tr_pk r)) db \<longrightarrow>
            triggered r db started completed = [])
       \<and> (\<not> is_critical r \<and> validation_status r = ''PENDING''
            \<and> no_workflow_named (''VALIDATION_'' @ str_nat (tr_pk r)) db \<longrightarrow>
            map workflow_type (triggered r db started completed) = [AUTO_VALIDATION])
       \<and> (\<not> is_critical r \<and> validation_status r = ''PENDING''
            \<and> \<not> no_workflow_named (''VALIDATION_'' @ str_nat (tr_pk r)) db \<longrightarrow>
            triggered r db started completed = [])
       \<and> (\<not> is_critical r \<and> validation_status r \<noteq> ''PENDING'' \<longrightarrow>
            triggered r db started completed = [])"
proof -
  have "result_workflows (trigger_workflow started completed r db)
        = result_workflows db @ triggered r db started completed"
  proof (cases "is_critical r")
    case True
    show ?thesis
    proof (cases "no_workflow_named (''CRITICAL_'' @ str_nat (tr_pk r)) db")
      case free: True
      show ?thesis
        unfolding trigger_workflow_def triggered_def
        using run_created_workflow[OF assms free] True free by simp
    next
      case False
      then show ?thesis
        by (simp add: trigger_workflow_def triggered_def True create_workflow_taken)
    qed
  next
    case nc: False
    show ?thesis
    proof (cases "validation_status r = ''PENDING''")
      case True
      show ?thesis
      proof (cases "no_workflow_named (''VALIDATION_'' @ str_nat (tr_pk r)) db")
        case free: True
        show ?thesis
          unfolding trigger_workflow_def triggered_def
          using run_created_workflow[OF assms free] True nc free by simp
      next
        case False
        then show ?thesis
          by (simp add: trigger_workflow_def triggered_def nc True create_workflow_taken)
      qed
    next
      case False
      then show ?thesis by (simp add: trigger_workflow_def triggered_def nc)
    qed
  qed
  then show ?thesis by (simp add: triggered_def completed_workflow_def)
qed

text \<open>
  The theorem on a critical result that awaits validation, on the same result triggered
  a second time, and on the same result with a level that is not critical.
\<close>

theorem one_workflow_per_trigger_witness:
  "fresh_keys result_database \<and> is_critical critical_pending_result
   \<and> no_workflow_named (''CRITICAL_'' @ str_nat (tr_pk critical_pending_result)) result_database
   \<and> map workflow_type (result_workflows (trigger_workflow ''12:00'' ''12:01'' critical_pending_result result_database))
       = [CRITICAL_VALUE_ALERT]
   \<and> fresh_keys (trigger_workflow ''12:00'' ''12:01'' critical_pending_result result_database)
   \<and> result_workflows (trigger_workflow ''12:02'' ''12:03'' critical_pending_result
        (trigger_workflow ''12:00'' ''12:01'' critical_pending_result result_database))
       = result_workflows (trigger_workflow ''12:00'' ''12:01'' critical_pending_result result_database)
   \<and> map workflow_type (result_workflows (trigger_workflow ''12:00'' ''12:01''
        (critical_pending_result\<lparr>critical_level := ''HIGH''\<rparr>) result_database))
       = [AUTO_VALIDATION]"
proof -
  let ?h = "critical_pending_result\<lparr>critical_level := ''HIGH''\<rparr>"
  let ?db1 = "trigger_workflow ''12:00'' ''12:01'' critical_pending_result result_database"
  have a: "fresh_keys result_database" by code_simp
  have b: "no_workflow_named (''CRITICAL_'' @ str_nat (tr_pk critical_pending_result)) result_database" by code_simp
  have c: "no_workflow_named (''VALIDATION_'' @ str_nat (tr_pk ?h)) result_database" by code_simp
  have d: "is_critical critical_pending_result" by code_simp
  have e: "\<not> is_critical ?h" by code_simp
  have f: "validation_status ?h = ''PENDING''" by code_simp
  have g: "result_workflows result_database = []" by code_simp
  have a1: "fresh_keys ?db1" by code_simp
  have b1: "\<not> no_workflow_named (''CRITICAL_'' @ str_nat (tr_pk critical_pending_result)) ?db1" by code_simp
  from one_workflow_per_trigger[OF a, of "''12:00''" "''12:01''" critical_pending_result] b d g
  have 1: "map workflow_type (result_workflows ?db1) = [CRITICAL_VALUE_ALERT]" by simp
  from one_workflow_per_trigger[OF a1, of "''12:02''" "''12:03''" critical_pending_result] b1 d
  have 2: "result_workflows (trigger_workflow ''12:02'' ''12:03'' critical_pending_result ?db1)
           = result_workflows ?db1" by simp
  from one_workflow_per_trigger[OF a, of "''12:00''" "''12:01''" ?h] c e f g
  have 3: "map workflow_type (result_workflows (trigger_workflow ''12:00'' ''12:01'' ?h result_database))
       = [AUTO_VALIDATION]" by simp
  from a b d a1 1 2 3 show ?thesis by blast
qed

text \<open>
  Claim C2 as stated fails: for a result that is critical and awaits validation the
  trigger creates one workflow, the critical-value alert, and no auto-validation.
\<close>

theorem critical_pending_result_gets_one_workflow:
  "is_critical critical_pending_result \<and> validation_status critical_pending_result = ''PENDING''
   \<and> result_workflows result_database = []
   \<and> map workflow_type (result_workflows (trigger_workflow ''12:00'' ''12:01'' critical_pending_result result_database))
       = [CRITICAL_VALUE_ALERT]"
  by code_simp

text \<open>
  What does hold of claim C1: on a table with distinct keys, running the upsert loop of a
  message a second time returns what the first run returned and leaves every row, its key
  and all its fields as the first run left them; no row is added. This is so whether the
  first run ended normally or with an exception, and whatever the database accepts.
\<close>

lemma upsert_results_step:
  "upsert_results accepts mid (seg # rest) db =
     (case one_step accepts mid seg db of
        Inl e \<Rightarrow> (Some e, db)
      | Inr d \<Rightarrow> upsert_results accepts mid rest d)"
  by (simp add: one_step_def split: sum.splits prod.splits)

lemma hit_update [simp]: "hit mid seg (update_existing s r) = hit mid seg r"
  by (simp add: hit_def update_existing_def split: option.splits)

lemma pk_update [simp]: "tr_pk (update_existing s r) = tr_pk r"
  by (simp add: update_existing_def)

lemma update_update [simp]: "update_existing s (update_existing s' r) = update_existing s r"
  by (simp add: update_existing_def)

lemma hit_touch [simp]: "hit mid seg (touch mid s r) = hit mid seg r"
  by (simp add: touch_def)

lemma pk_touch [simp]: "tr_pk (touch mid s r) = tr_pk r"
  by (simp add: touch_def)

lemma update_touch [simp]: "update_existing s (touch mid s' r) = update_existing s r"
  by (simp add: touch_def)

lemma update_fold_touch: "update_existing s (fold (touch mid) done r) = update_existing s r"
  by (induction "done" arbitrary: r) simp_all

lemma hit_fold_touch: "hit mid seg (fold (touch mid) done r) = hit mid seg r"
  by (induction "done" arbitrary: r) simp_all

lemma update_new_result: "update_existing seg (new_result k mid seq seg) = new_result k mid seq seg"
  by (simp add: update_existing_def new_result_def)

lemma hit_filter:
  "py_int (obx_set_id seg) = Some seq \<Longrightarrow>
   filter (\<lambda>r. ldt_message_id r = mid \<and> ldt_obx_sequence r = Some seq) rows = filter (hit mid seg) rows"
proof -
  assume "py_int (obx_set_id seg) = Some seq"
  then have "hit mid seg = (\<lambda>r. ldt_message_id r = mid \<and> ldt_obx_sequence r = Some seq)"
    by (simp add: fun_eq_iff hit_def)
  then show ?thesis by simp
qed

lemma one_step_update:
  assumes d: "distinct (map tr_pk (test_results db))" and f: "filter (hit mid seg) (test_results db) = [r]"
  shows "one_step accepts mid seg db = Inr (db\<lparr>test_results := map (touch mid seg) (test_results db)\<rparr>)"
proof -
  from f have "r \<in> set (filter (hit mid seg) (test_results db))" by simp
  then have r: "r \<in> set (test_results db)" and hr: "hit mid seg r" by simp_all
  from hr obtain seq where k: "py_int (obx_set_id seg) = Some seq" by (auto simp: hit_def split: option.splits)
  have "(if tr_pk x = tr_pk (update_existing seg r) then update_existing seg r else x) = touch mid seg x"
    if x: "x \<in> set (test_results db)" for x
  proof (cases "hit mid seg x")
    case True
    with x have "x \<in> set (filter (hit mid seg) (test_results db))" by simp
    with f have "x = r" by simp
    then show ?thesis using hr by (simp add: touch_def)
  next
    case False
    with hr have "x \<noteq> r" by auto
    with d x r have "tr_pk x \<noteq> tr_pk r" by (auto simp: distinct_map inj_on_def)
    with False show ?thesis by (simp add: touch_def)
  qed
  then have m: "map (\<lambda>x. if tr_pk x = tr_pk (update_existing seg r) then update_existing seg r else x) (test_results db)
             = map (touch mid seg) (test_results db)"
    by (intro map_cong) simp_all
  show ?thesis
    using m by (simp add: one_step_def get_or_create_def k hit_filter[OF k] f save_result_def)
qed

lemma one_step_cases:
  assumes "one_step accepts mid seg db = Inr d" and dist: "distinct (map tr_pk (test_results db))"
  obtains (created) seq where "py_int (obx_set_id seg) = Some seq" "filter (hit mid seg) (test_results db) = []"
      "d = db\<lparr>test_results := test_results db @ [new_result (next_uuid db) mid seq seg],
               next_uuid := Suc (next_uuid db)\<rparr>"
  | (updated) r where "filter (hit mid seg) (test_results db) = [r]"
      "d = db\<lparr>test_results := map (touch mid seg) (test_results db)\<rparr>"
proof -
  from assms(1) obtain seq where k: "py_int (obx_set_id seg) = Some seq"
    by (auto simp: one_step_def get_or_create_def split: option.splits)
  show thesis
  proof (cases "filter (hit mid seg) (test_results db)")
    case Nil
    with assms(1) k have "d = db\<lparr>test_results := test_results db @ [new_result (next_uuid db) mid seq seg],
               next_uuid := Suc (next_uuid db)\<rparr>"
      by (auto simp: one_step_def get_or_create_def hit_filter[OF k] Let_def split: if_splits)
    with k Nil show ?thesis by (rule created)
  next
    case (Cons r rs)
    with assms(1) k have rs: "rs = []"
      by (cases rs) (auto simp: one_step_def get_or_create_def hit_filter[OF k])
    with Cons have f: "filter (hit mid seg) (test_results db) = [r]" by simp
    from one_step_update[OF dist f, of accepts] assms(1)
    have "d = db\<lparr>test_results := map (touch mid seg) (test_results db)\<rparr>" by simp
    with f show ?thesis by (rule updated)
  qed
qed

lemma filter_hit_touch:
  "filter (hit mid s) (map (touch mid seg) rows) = map (touch mid seg) (filter (hit mid s) rows)"
  by (induction rows) simp_all

lemma settled_step:
  assumes inv: "settled mid done db" and st: "one_step accepts mid seg db = Inr d"
  shows "settled mid (done @ [seg]) d"
proof -
  let ?rows = "test_results db"
  from inv have dist: "distinct (map tr_pk ?rows)"
    and low: "list_all (\<lambda>r. tr_pk r < next_uuid db) ?rows"
    and fx: "list_all (\<lambda>r. fold (touch mid) done r = r) ?rows"
    and one: "list_all (\<lambda>s. length (filter (hit mid s) ?rows) = 1) done"
    by (simp_all add: settled_def)
  from st dist show ?thesis
  proof (cases rule: one_step_cases)
    case (created seq)
    let ?n = "new_result (next_uuid db) mid seq seg"
    have hn: "hit mid seg ?n" by (simp add: hit_def created(1) new_result_def)
    have pn: "tr_pk ?n = next_uuid db" by (simp add: new_result_def)
    have rows: "test_results d = ?rows @ [?n]" and nx: "next_uuid d = Suc (next_uuid db)"
      by (simp_all add: created(3))
    have 1: "distinct (map tr_pk (?rows @ [?n]))"
      using dist low by (auto simp: pn list_all_iff)
    have 2: "list_all (\<lambda>r. tr_pk r < Suc (next_uuid db)) (?rows @ [?n])"
      using low by (auto simp: pn list_all_iff)
    have nohit: "\<not> hit mid seg x" if "x \<in> set ?rows" for x
    proof
      assume "hit mid seg x"
      with that have "x \<in> set (filter (hit mid seg) ?rows)" by simp
      with created(2) show False by simp
    qed
    have 3: "list_all (\<lambda>r. fold (touch mid) (done @ [seg]) r = r) (?rows @ [?n])"
    proof -
      have "fold (touch mid) (done @ [seg]) x = x" if x: "x \<in> set ?rows" for x
      proof -
        from fx x have "fold (touch mid) done x = x" by (simp add: list_all_iff)
        then show ?thesis using nohit[OF x] by (simp add: touch_def)
      qed
      moreover have "fold (touch mid) (done @ [seg]) ?n = ?n"
      proof -
        have "hit mid seg (fold (touch mid) done ?n)" using hn by (simp add: hit_fold_touch)
        then have "fold (touch mid) (done @ [seg]) ?n = update_existing seg (fold (touch mid) done ?n)"
          by (simp add: touch_def)
        also have "\<dots> = update_existing seg ?n" by (rule update_fold_touch)
        also have "\<dots> = ?n" by (rule update_new_result)
        finally show ?thesis .
      qed
      ultimately show ?thesis by (simp add: list_all_iff)
    qed
    have 4: "list_all (\<lambda>s. length (filter (hit mid s) (?rows @ [?n])) = 1) (done @ [seg])"
    proof -
      have "length (filter (hit mid s) (?rows @ [?n])) = 1" if s: "s \<in> set done" for s
      proof -
        from one s have l: "length (filter (hit mid s) ?rows) = 1" by (simp add: list_all_iff)
        have "\<not> hit mid s ?n"
        proof
          assume h: "hit mid s ?n"
          then have "py_int (obx_set_id s) = Some seq"
            by (auto simp: hit_def new_result_def split: option.splits)
          then have "hit mid s = hit mid seg" by (simp add: fun_eq_iff hit_def created(1))
          with l created(2) show False by simp
        qed
        with l show ?thesis by simp
      qed
      moreover have "length (filter (hit mid seg) (?rows @ [?n])) = 1"
        using created(2) hn by simp
      ultimately show ?thesis by (simp add: list_all_iff)
    qed
    from 1 2 3 4 show ?thesis by (simp add: settled_def rows nx)
  next
    case (updated r)
    have rows: "test_results d = map (touch mid seg) ?rows" and nx: "next_uuid d = next_uuid db"
      by (simp_all add: updated(2))
    have pk: "map tr_pk (map (touch mid seg) ?rows) = map tr_pk ?rows" by simp
    have 1: "distinct (map tr_pk (map (touch mid seg) ?rows))" using dist by (simp only: pk)
    have 2: "list_all (\<lambda>r. tr_pk r < next_uuid db) (map (touch mid seg) ?rows)"
      using low by (simp add: list_all_iff)
    have 3: "list_all (\<lambda>r. fold (touch mid) (done @ [seg]) r = r) (map (touch mid seg) ?rows)"
    proof -
      have "fold (touch mid) (done @ [seg]) (touch mid seg x) = touch mid seg x" if x: "x \<in> set ?rows" for x
      proof (cases "hit mid seg x")
        case True
        then have t: "touch mid seg x = update_existing seg x" by (simp add: touch_def)
        have "hit mid seg (fold (touch mid) done (update_existing seg x))"
          using True by (simp add: hit_fold_touch)
        then have "fold (touch mid) (done @ [seg]) (update_existing seg x)
                   = update_existing seg (fold (touch mid) done (update_existing seg x))"
          by (simp add: touch_def)
        also have "\<dots> = update_existing seg (update_existing seg x)" by (rule update_fold_touch)
        also have "\<dots> = update_existing seg x" by simp
        finally show ?thesis by (simp only: t)
      next
        case False
        from fx x have "fold (touch mid) done x = x" by (simp add: list_all_iff)
        with False show ?thesis by (simp add: touch_def)
      qed
      then show ?thesis by (simp add: list_all_iff)
    qed
    have len: "length (filter (hit mid s) (map (touch mid seg) ?rows)) = length (filter (hit mid s) ?rows)" for s
      by (simp add: filter_hit_touch)
    have 4: "list_all (\<lambda>s. length (filter (hit mid s) (map (touch mid seg) ?rows)) = 1) (done @ [seg])"
      unfolding len using one updated(1) by (simp add: list_all_iff)
    from 1 2 3 4 show ?thesis by (simp add: settled_def rows nx)
  qed
qed

lemma settled_run:
  "settled mid done db \<Longrightarrow> upsert_results accepts mid rest db = (None, d) \<Longrightarrow> settled mid (done @ rest) d"
proof (induction rest arbitrary: db "done")
  case Nil
  then show ?case by simp
next
  case (Cons seg rest)
  from Cons.prems(2) obtain d1 where s: "one_step accepts mid seg db = Inr d1"
    and r: "upsert_results accepts mid rest d1 = (None, d)"
    by (cases "one_step accepts mid seg db") (simp_all add: upsert_results_step del: upsert_results.simps)
  have "settled mid (done @ [seg]) d1" by (rule settled_step[OF Cons.prems(1) s])
  from Cons.IH[OF this r] show ?case by simp
qed

lemma rerun_updates:
  "distinct (map tr_pk (test_results d)) \<Longrightarrow>
   list_all (\<lambda>s. length (filter (hit mid s) (test_results d)) = 1) rest \<Longrightarrow>
   upsert_results accepts mid rest d
     = (None, d\<lparr>test_results := map (fold (touch mid) rest) (test_results d)\<rparr>)"
proof (induction rest arbitrary: d)
  case Nil
  then show ?case by simp
next
  case (Cons seg rest)
  let ?d1 = "d\<lparr>test_results := map (touch mid seg) (test_results d)\<rparr>"
  from Cons.prems(2) have "length (filter (hit mid seg) (test_results d)) = 1" by simp
  then obtain r where f: "filter (hit mid seg) (test_results d) = [r]"
    by (cases "filter (hit mid seg) (test_results d)") auto
  have s: "one_step accepts mid seg d = Inr ?d1" by (rule one_step_update[OF Cons.prems(1) f])
  have 1: "distinct (map tr_pk (test_results ?d1))" using Cons.prems(1) by (simp add: comp_def)
  have 2: "list_all (\<lambda>s. length (filter (hit mid s) (test_results ?d1)) = 1) rest"
    using Cons.prems(2) by (simp add: filter_hit_touch)
  have "upsert_results accepts mid rest ?d1
        = (None, ?d1\<lparr>test_results := map (fold (touch mid) rest) (test_results ?d1)\<rparr>)"
    by (rule Cons.IH[OF 1 2])
  then show ?case by (simp add: upsert_results_step s comp_def del: upsert_results.simps)
qed

lemma upsert_results_append:
  "upsert_results accepts mid (xs @ ys) db =
     (case upsert_results accepts mid xs db of
        (None, d) \<Rightarrow> upsert_results accepts mid ys d
      | (Some e, d) \<Rightarrow> (Some e, d))"
proof (induction xs arbitrary: db)
  case Nil
  show ?case by simp
next
  case (Cons x xs)
  show ?case
    by (cases "one_step accepts mid x db") (simp_all add: upsert_results_step Cons.IH del: upsert_results.simps)
qed

lemma upsert_results_failure:
  "upsert_results accepts mid segs db = (Some e, d) \<Longrightarrow>
   \<exists>p seg rest. segs = p @ seg # rest \<and> upsert_results accepts mid p db = (None, d)
      \<and> one_step accepts mid seg d = Inl e"
proof (induction segs arbitrary: db)
  case Nil
  then show ?case by simp
next
  case (Cons x xs)
  show ?case
  proof (cases "one_step accepts mid x db")
    case (Inl e')
    with Cons.prems have "e' = e" "d = db" by (simp_all add: upsert_results_step del: upsert_results.simps)
    with Inl have "x # xs = [] @ x # xs \<and> upsert_results accepts mid [] db = (None, d)
        \<and> one_step accepts mid x d = Inl e" by simp
    then show ?thesis by blast
  next
    case (Inr d1)
    with Cons.prems have "upsert_results accepts mid xs d1 = (Some e, d)"
      by (simp add: upsert_results_step del: upsert_results.simps)
    from Cons.IH[OF this] obtain p seg rest where p: "xs = p @ seg # rest"
      "upsert_results accepts mid p d1 = (None, d)" "one_step accepts mid seg d = Inl e" by blast
    have "upsert_results accepts mid (x # p) db = (None, d)"
      using Inr p(2) by (simp add: upsert_results_step del: upsert_results.simps)
    with p(1,3) have "x # xs = (x # p) @ seg # rest \<and> upsert_results accepts mid (x # p) db = (None, d)
        \<and> one_step accepts mid seg d = Inl e" by simp
    then show ?thesis by blast
  qed
qed

lemma rerun_success:
  assumes "distinct (map tr_pk (test_results db))"
    and "list_all (\<lambda>r. tr_pk r < next_uuid db) (test_results db)"
    and "upsert_results accepts mid segs db = (None, d)"
  shows "upsert_results accepts mid segs d = (None, d)"
proof -
  have "settled mid [] db" using assms(1,2) by (simp add: settled_def list_all_iff)
  from settled_run[OF this assms(3)] have s: "settled mid segs d" by simp
  then have fx: "map (fold (touch mid) segs) (test_results d) = test_results d"
    by (intro map_idI) (simp add: settled_def list_all_iff)
  from s have "upsert_results accepts mid segs d
      = (None, d\<lparr>test_results := map (fold (touch mid) segs) (test_results d)\<rparr>)"
    by (intro rerun_updates) (simp_all add: settled_def)
  then show ?thesis by (simp add: fx)
qed

lemma upsert_results_idempotent:
  assumes "distinct (map tr_pk (test_results db))"
    and "list_all (\<lambda>r. tr_pk r < next_uuid db) (test_results db)"
  shows "upsert_results accepts mid segs (snd (upsert_results accepts mid segs db))
         = upsert_results accepts mid segs db"
proof (cases "upsert_results accepts mid segs db")
  case (Pair raised d)
  show ?thesis
  proof (cases raised)
    case None
    with Pair have "upsert_results accepts mid segs db = (None, d)" by simp
    from rerun_success[OF assms this] show ?thesis using Pair None by simp
  next
    case (Some e)
    with Pair have "upsert_results accepts mid segs db = (Some e, d)" by simp
    from upsert_results_failure[OF this] obtain p seg rest where p: "segs = p @ seg # rest"
      "upsert_results accepts mid p db = (None, d)" "one_step accepts mid seg d = Inl e" by blast
    have "upsert_results accepts mid p d = (None, d)" by (rule rerun_success[OF assms p(2)])
    then have "upsert_results accepts mid segs d = (Some e, d)"
      by (simp add: p(1) upsert_results_append upsert_results_step p(3) del: upsert_results.simps)
    then show ?thesis using Pair Some by simp
  qed
qed

lemma process_result_message_idempotent:
  assumes "distinct (map tr_pk (test_results db))"
    and "list_all (\<lambda>r. tr_pk r < next_uuid db) (test_results db)"
  shows "process_result_message accepts self (snd (process_result_message accepts self db))
         = process_result_message accepts self db"
  using upsert_results_idempotent[OF assms]
  by (simp add: process_result_message_def split: option.splits)

text \<open>
  Claim C1 at two inputs. A row of the message and set-id exists with other units: both
  runs set its value and its raw payload from the segment and leave its unit as it was.
  A message carries two segments of one set-id: the first creates the row with its unit,
  the second updates the value and not the unit, in the first run and in the second.
  Either way the row ends with the value of one measurement and the unit of another.
\<close>

theorem unit_not_updated_from_segment:
  "map result_unit (test_results earlier_database) = [''mmol/L'']
   \<and> map row_summary
        (test_results (snd (process_ldt_message_task reject_all first_runs 1 earlier_database)))
      = [(5, ''120'', ''mmol/L'', Some ''mg/dL'')]
   \<and> map row_summary
        (test_results (run_twice reject_all earlier_database))
      = [(5, ''120'', ''mmol/L'', Some ''mg/dL'')]
   \<and> test_results duplicate_database = []
   \<and> map row_summary
        (test_results (snd (process_ldt_message_task accept_all first_runs 1 duplicate_database)))
      = [(2, ''6.7'', ''mg/dL'', Some ''mmol/L'')]
   \<and> map row_summary
        (test_results (run_twice accept_all duplicate_database))
      = [(2, ''6.7'', ''mg/dL'', Some ''mmol/L'')]"
  by code_simp

end
